theory Spec2Isabelle
  imports Complex_Main "HOL-Library.Word"
begin

section \<open>JavaScript values as the controller sees them\<close>

text \<open>
  The controller \<^verbatim>\<open>generateImage\<close> (an Express handler) inspects values that come out of
  \<^verbatim>\<open>JSON.parse\<close> or out of the HTTP client: it tests them for truthiness, reads named
  properties, compares them with string literals and turns them into error messages.
  A JavaScript string is modelled by the \<open>string\<close> of the bytes of its UTF-8 encoding (for
  ASCII text, the text itself), a byte of a \<^verbatim>\<open>Buffer\<close> by an 8-bit word, a number by its
  value. Arithmetic on numbers is that of IEEE-754 doubles: \<open>to_double\<close> below rounds an
  exact result to the nearest double.
\<close>

type_synonym byte = "8 word"

datatype js =
    Undefined
  | Null
  | Bool bool
  | Num rat
  | Str string
  | Arr "js list"
  | Obj "(string \<times> js) list"

text \<open>\<^verbatim>\<open>!v\<close> is \<open>\<not> truthy v\<close>.\<close>

fun truthy :: "js \<Rightarrow> bool" where
  "truthy Undefined = False"
| "truthy Null = False"
| "truthy (Bool b) = b"
| "truthy (Num n) = (n \<noteq> 0)"
| "truthy (Str s) = (s \<noteq> [])"
| "truthy (Arr xs) = True"
| "truthy (Obj kv) = True"

text \<open>\<^verbatim>\<open>a || b\<close>\<close>

definition js_or :: "js \<Rightarrow> js \<Rightarrow> js" where
  "js_or a b = (if truthy a then a else b)"

text \<open>Reading a property of \<^verbatim>\<open>null\<close> or \<^verbatim>\<open>undefined\<close> throws a TypeError.\<close>

definition nullish :: "js \<Rightarrow> bool" where
  "nullish v \<longleftrightarrow> v = Null \<or> v = Undefined"

text \<open>
  \<^verbatim>\<open>v.k\<close> for a value that is not nullish and for the property names the controller reads
  (\<^verbatim>\<open>id status urls output error message images image\<close>): an own property of an object,
  \<^verbatim>\<open>undefined\<close> on everything else (no prototype defines one of these names).
  The first entry of the association list is the property's value.
\<close>

fun js_get :: "js \<Rightarrow> string \<Rightarrow> js" where
  "js_get (Obj kv) k = (case map_of kv k of Some v \<Rightarrow> v | None \<Rightarrow> Undefined)"
| "js_get v k = Undefined"

text \<open>\<^verbatim>\<open>o.k = v\<close> on an object.\<close>

fun set_prop :: "js \<Rightarrow> string \<Rightarrow> js \<Rightarrow> js" where
  "set_prop (Obj kv) k v = Obj ((k, v) # kv)"
| "set_prop o' k v = o'"

text \<open>\<^verbatim>\<open>Array.isArray(v)\<close> and \<^verbatim>\<open>v[0]\<close> on an array.\<close>

fun isArray :: "js \<Rightarrow> bool" where
  "isArray (Arr xs) = True"
| "isArray v = False"

fun first_elem :: "js \<Rightarrow> js" where
  "first_elem (Arr (x # xs)) = x"
| "first_elem v = Undefined"

subsection \<open>String operations\<close>

text \<open>\<^verbatim>\<open>s.startsWith(p)\<close> and \<^verbatim>\<open>s.includes(p)\<close>.\<close>

definition startsWith :: "string \<Rightarrow> string \<Rightarrow> bool" where
  "startsWith s p \<longleftrightarrow> take (length p) s = p"

fun str_includes :: "string \<Rightarrow> string \<Rightarrow> bool" where
  "str_includes [] p = (p = [])"
| "str_includes (c # cs) p = (startsWith (c # cs) p \<or> str_includes cs p)"

text \<open>
  \<^verbatim>\<open>s.length\<close> counts UTF-16 code units: one for each code point, that is for each byte
  of the UTF-8 text that is not a continuation byte, and one more for each code point
  above U+FFFF, whose first byte is F0 or above.
\<close>

definition js_length :: "string \<Rightarrow> nat" where
  "js_length s =
     length (filter (\<lambda>c. \<not> (0x80 \<le> (of_char c :: nat) \<and> (of_char c :: nat) \<le> 0xBF)) s)
     + length (filter (\<lambda>c. 0xF0 \<le> (of_char c :: nat)) s)"

text \<open>
  \<^verbatim>\<open>s.trim()\<close> removes the white space and line terminators of ECMAScript from both
  ends: U+0009 to U+000D, U+0020, and, as UTF-8 sequences, U+00A0, U+1680, U+2000 to
  U+200A, U+2028, U+2029, U+202F, U+205F, U+3000 and U+FEFF.
\<close>

definition white_space :: "string list" where
  "white_space =
     [[CHR 0x09], [CHR 0x0A], [CHR 0x0B], [CHR 0x0C], [CHR 0x0D], [CHR 0x20],
      [CHR 0xC2, CHR 0xA0], [CHR 0xE1, CHR 0x9A, CHR 0x80]]
     @ map (\<lambda>n. [CHR 0xE2, CHR 0x80, char_of (128 + n)]) [0..<11]
     @ [[CHR 0xE2, CHR 0x80, CHR 0xA8], [CHR 0xE2, CHR 0x80, CHR 0xA9],
        [CHR 0xE2, CHR 0x80, CHR 0xAF], [CHR 0xE2, CHR 0x81, CHR 0x9F],
        [CHR 0xE3, CHR 0x80, CHR 0x80], [CHR 0xEF, CHR 0xBB, CHR 0xBF]]"

function strip_leading :: "string list \<Rightarrow> string \<Rightarrow> string" where
  "strip_leading seqs s =
     (case List.find (\<lambda>q. q \<noteq> [] \<and> startsWith s q) seqs of
        None \<Rightarrow> s
      | Some q \<Rightarrow> strip_leading seqs (drop (length q) s))"
  by pat_completeness auto
termination
proof (relation "measure (\<lambda>(seqs, s). length s)")
  show "wf (measure (\<lambda>(seqs, s). length s))" by simp
next
  fix seqs :: "string list" and s q :: string
  assume "List.find (\<lambda>q. q \<noteq> [] \<and> startsWith s q) seqs = Some q"
  then have "q \<noteq> []" and "take (length q) s = q"
    by (auto simp: find_Some_iff startsWith_def)
  then have "s \<noteq> []" by auto
  with \<open>q \<noteq> []\<close> show "((seqs, drop (length q) s), (seqs, s)) \<in> measure (\<lambda>(seqs, s). length s)"
    by simp
qed

definition trim :: "string \<Rightarrow> string" where
  "trim s = rev (strip_leading (map rev white_space) (rev (strip_leading white_space s)))"

text \<open>\<^verbatim>\<open>s.split(",")[1]\<close>: the text between the first and the second comma,
  \<^verbatim>\<open>undefined\<close> when \<open>s\<close> has no comma.\<close>

definition split_comma_1 :: "string \<Rightarrow> js" where
  "split_comma_1 s =
     (case dropWhile (\<lambda>c. c \<noteq> CHR '','') s of
        [] \<Rightarrow> Undefined
      | c # r \<Rightarrow> Str (takeWhile (\<lambda>c. c \<noteq> CHR '','') r))"

text \<open>
  \<^verbatim>\<open>s.replace(/^data:image\/\w+;base64,/, "")\<close>. The class \<^verbatim>\<open>\w\<close> is
  \<^verbatim>\<open>[A-Za-z0-9_]\<close>; the character after the run must be \<^verbatim>\<open>;\<close>, which is not in the class,
  so only the longest run can match.
\<close>

definition is_word_char :: "char \<Rightarrow> bool" where
  "is_word_char c \<longleftrightarrow>
     (let n = (of_char c :: nat) in
        (65 \<le> n \<and> n \<le> 90) \<or> (97 \<le> n \<and> n \<le> 122) \<or> (48 \<le> n \<and> n \<le> 57) \<or> n = 95)"

definition strip_data_uri :: "string \<Rightarrow> string" where
  "strip_data_uri s =
     (if startsWith s ''data:image/'' then
        (let r = drop (length ''data:image/'') s;
             w = takeWhile is_word_char r;
             r' = dropWhile is_word_char r
         in if w \<noteq> [] \<and> startsWith r' '';base64,''
            then drop (length '';base64,'') r' else s)
      else s)"

text \<open>
  \<^verbatim>\<open>String(v)\<close>, as \<^verbatim>\<open>new Error(v)\<close> and template literals apply it. The text of a number is
  the runtime's (\<open>nts\<close>); an array is its elements joined by commas, \<^verbatim>\<open>null\<close> and
  \<^verbatim>\<open>undefined\<close> elements giving the empty string; a plain object is
  \<^verbatim>\<open>[object Object]\<close> (an object that shadows \<^verbatim>\<open>toString\<close> is outside the model).
\<close>

fun join_comma :: "string list \<Rightarrow> string" where
  "join_comma [] = []"
| "join_comma [s] = s"
| "join_comma (s # t # ss) = s @ '','' @ join_comma (t # ss)"

fun ToString :: "(rat \<Rightarrow> string) \<Rightarrow> js \<Rightarrow> string" where
  "ToString nts Undefined = ''undefined''"
| "ToString nts Null = ''null''"
| "ToString nts (Bool b) = (if b then ''true'' else ''false'')"
| "ToString nts (Num n) = nts n"
| "ToString nts (Str s) = s"
| "ToString nts (Arr xs) =
     join_comma (map (\<lambda>x. if x = Null \<or> x = Undefined then [] else ToString nts x) xs)"
| "ToString nts (Obj kv) = ''[object Object]''"

subsection \<open>Numbers\<close>

text \<open>
  The double nearest to an integer \<open>n\<close>, ties to the even significand: an integer of at
  most 53 bits is a double; above, the doubles are the multiples of
  \<open>2 ^ (bit_length n - 53)\<close>. (Magnitudes that overflow a double, \<open>2\<^sup>1\<^sup>0\<^sup>2\<^sup>4\<close> and above, are
  not modelled.)
\<close>

function bit_length :: "int \<Rightarrow> nat" where
  "bit_length n = (if n \<le> 0 then 0 else Suc (bit_length (n div 2)))"
  by pat_completeness auto
termination
  by (relation "measure nat") auto

definition to_double :: "int \<Rightarrow> int" where
  "to_double n =
     (let m = \<bar>n\<bar>;
          u = 2 ^ (bit_length m - 53);
          q = m div u;
          r = m mod u;
          q' = (if 2 * r < u then q else if u < 2 * r then q + 1 else if even q then q else q + 1)
      in sgn n * (q' * u))"

text \<open>\<^verbatim>\<open>Math.max(0, user.creditBalance - 1)\<close> (line 455), on a balance that is an integer.\<close>

definition debit :: "int \<Rightarrow> int" where
  "debit balance = max 0 (to_double (balance - 1))"

subsection \<open>Base64\<close>

text \<open>\<^verbatim>\<open>Buffer.from(bytes).toString("base64")\<close>: RFC 4648 with padding.\<close>

definition b64chars :: string where
  "b64chars = ''ABCDEFGHIJKLMNOPQRSTUVWXYZabcdefghijklmnopqrstuvwxyz0123456789+/''"

definition b64char :: "nat \<Rightarrow> char" where
  "b64char i = b64chars ! (i mod 64)"

fun base64 :: "byte list \<Rightarrow> string" where
  "base64 [] = []"
| "base64 [a] =
     [b64char (unat a div 4), b64char ((unat a mod 4) * 16), CHR ''='', CHR ''='']"
| "base64 [a, b] =
     [b64char (unat a div 4), b64char ((unat a mod 4) * 16 + unat b div 16),
      b64char ((unat b mod 16) * 4), CHR ''='']"
| "base64 (a # b # c # bs) =
     [b64char (unat a div 4), b64char ((unat a mod 4) * 16 + unat b div 16),
      b64char ((unat b mod 16) * 4 + unat c div 64), b64char (unat c mod 64)] @ base64 bs"

text \<open>
  The decoder of RFC 4648 (what \<^verbatim>\<open>Buffer.from(payload, "base64")\<close> computes on a padded,
  well-formed payload). The controller never decodes; the decoder states what the
  payload it returns stands for.
\<close>

fun index_of :: "char \<Rightarrow> string \<Rightarrow> nat option" where
  "index_of c [] = None"
| "index_of c (x # xs) = (if c = x then Some 0 else map_option Suc (index_of c xs))"

definition b64index :: "char \<Rightarrow> nat option" where
  "b64index c = index_of c b64chars"

fun base64_decode :: "string \<Rightarrow> byte list option" where
  "base64_decode [] = Some []"
| "base64_decode (c1 # c2 # c3 # c4 # cs) =
     (case (b64index c1, b64index c2) of
        (Some i1, Some i2) \<Rightarrow>
          (if cs = [] \<and> c3 = CHR ''='' \<and> c4 = CHR ''='' then
             Some [of_nat (i1 * 4 + i2 div 16)]
           else (case b64index c3 of
              Some i3 \<Rightarrow>
                (if cs = [] \<and> c4 = CHR ''='' then
                   Some [of_nat (i1 * 4 + i2 div 16), of_nat ((i2 mod 16) * 16 + i3 div 4)]
                 else (case b64index c4 of
                    Some i4 \<Rightarrow>
                      map_option
                        (\<lambda>bs. of_nat (i1 * 4 + i2 div 16) # of_nat ((i2 mod 16) * 16 + i3 div 4)
                                # of_nat ((i3 mod 4) * 64 + i4) # bs)
                        (base64_decode cs)
                  | None \<Rightarrow> None))
            | None \<Rightarrow> None))
      | _ \<Rightarrow> None)"
| "base64_decode cs = None"

section \<open>The environment of one request\<close>

text \<open>
  What the HTTP client hands over as \<^verbatim>\<open>response.data\<close>: a \<^verbatim>\<open>Buffer\<close> (the request asks for
  \<^verbatim>\<open>responseType: "arraybuffer"\<close>), or any other value: a string \<open>Value (Str s)\<close>, a parsed
  JSON document, \<^verbatim>\<open>undefined\<close>.
\<close>

datatype raw = Bytes "byte list" | Value js

text \<open>
  A thrown error: its \<^verbatim>\<open>message\<close> and, for an error of the HTTP client that carries the
  upstream's reply, \<^verbatim>\<open>response.status\<close> and \<^verbatim>\<open>response.data\<close>.
\<close>

record exn =
  message :: string
  response :: "(nat \<times> raw) option"

definition new_Error :: "string \<Rightarrow> exn" where
  "new_Error m = \<lparr>message = m, response = None\<rparr>"

definition cannot_read :: "js \<Rightarrow> string \<Rightarrow> exn" where
  "cannot_read v k =
     new_Error (''Cannot read properties of '' @ (if v = Null then ''null'' else ''undefined'')
                @ '' (reading '' @ [CHR 0x27] @ k @ [CHR 0x27] @ '')'')"

text \<open>The user document of \<^verbatim>\<open>userModel\<close>; \<open>creditBalance\<close> is an integer, held in a Number
  (a double).\<close>

record account =
  account_id :: string
  creditBalance :: int

text \<open>
  The library functions whose result the controller branches on and that are not part of
  the repository: \<^verbatim>\<open>JSON.parse\<close> (\<open>Inl m\<close>: it throws a SyntaxError with message \<open>m\<close>, whose
  wording is the engine's), \<^verbatim>\<open>Buffer.from(b).toString("utf-8")\<close>, the text of a number,
  and \<^verbatim>\<open>Buffer.from\<close> on a value that is not a buffer (\<open>Inl m\<close>: it throws a TypeError).
\<close>

record runtime =
  JSON_parse :: "string \<Rightarrow> string + js"
  utf8_toString :: "byte list \<Rightarrow> string"
  Number_toString :: "rat \<Rightarrow> string"
  Buffer_from :: "raw \<Rightarrow> string + byte list"

text \<open>
  The collaborators of one request: the two environment variables, the account lookup and
  \<^verbatim>\<open>user.save()\<close> (\<open>Some e\<close>: it rejects with \<open>e\<close> and nothing is written), the reply to the
  POST of the prompt, the reply to the \<open>k\<close>-th GET of the prediction URL, and the reply to
  the GET of an image URL. \<open>Inl e\<close> is a rejected promise.
\<close>

record world =
  HF_TOKEN_env :: "string option"
  HUGGING_FACE_TOKEN_env :: "string option"
  findById :: "js \<Rightarrow> exn + account option"
  save :: "account \<Rightarrow> exn option"
  post :: "js \<Rightarrow> exn + raw"
  poll :: "nat \<Rightarrow> exn + js"
  fetch :: "string \<Rightarrow> exn + byte list"

text \<open>\<^verbatim>\<open>req.body\<close>\<close>

record request =
  userId :: js
  prompt :: js

text \<open>The status and the JSON body of the controller's answer.\<close>

record reply =
  status :: nat
  success :: bool
  msg :: string
  reply_creditBalance :: "int option"
  resultImage :: "string option"

text \<open>
  What one request did to the outside: the POSTs to the model endpoint, the GETs of the
  prediction URL, the image URLs fetched, and the documents handed to \<^verbatim>\<open>user.save()\<close>.
\<close>

record effects =
  posts :: nat
  polls :: nat
  fetches :: "string list"
  saves :: "account list"

definition no_effects :: effects where
  "no_effects = \<lparr>posts = 0, polls = 0, fetches = [], saves = []\<rparr>"

text \<open>The documents that a resolved \<^verbatim>\<open>user.save()\<close> wrote.\<close>

definition persisted :: "world \<Rightarrow> effects \<Rightarrow> account list" where
  "persisted w eff = filter (\<lambda>u. save w u = None) (saves eff)"

text \<open>\<^verbatim>\<open>const HF_TOKEN = process.env.HF_TOKEN || process.env.HUGGING_FACE_TOKEN\<close> (line 4)\<close>

definition HF_TOKEN :: "world \<Rightarrow> string option" where
  "HF_TOKEN w =
     (case HF_TOKEN_env w of
        Some t \<Rightarrow> if t \<noteq> [] then Some t else HUGGING_FACE_TOKEN_env w
      | None \<Rightarrow> HUGGING_FACE_TOKEN_env w)"

definition failure :: "nat \<Rightarrow> string \<Rightarrow> reply" where
  "failure st m =
     \<lparr>status = st, success = False, msg = m, reply_creditBalance = None, resultImage = None\<rparr>"

section \<open>The polling loop (lines 122-164 and 310-352)\<close>

definition maxAttempts :: nat where
  "maxAttempts = 30"

text \<open>\<^verbatim>\<open>p.status === "starting" || p.status === "processing"\<close>, which throws on a nullish \<open>p\<close>.\<close>

definition transient :: "js \<Rightarrow> bool" where
  "transient p \<longleftrightarrow>
     \<not> nullish p \<and> (js_get p ''status'' = Str ''starting'' \<or> js_get p ''status'' = Str ''processing'')"

definition terminal :: "js \<Rightarrow> bool" where
  "terminal p \<longleftrightarrow>
     \<not> nullish p \<and> (js_get p ''status'' = Str ''succeeded'' \<or> js_get p ''status'' = Str ''failed'')"

text \<open>
  The \<^verbatim>\<open>while\<close> loop, from the state \<open>(attempts, finalPrediction)\<close>. An attempt is counted
  before the GET; a rejected GET is swallowed by the inner \<^verbatim>\<open>catch\<close> and keeps
  \<open>finalPrediction\<close>; a reply replaces it and \<^verbatim>\<open>break\<close>s on a terminal status. When the
  reply's data is nullish, reading its status throws inside the \<^verbatim>\<open>try\<close> (after the
  assignment) and then again in the loop condition or in the statement after the loop:
  the loop ends with the nullish value and \<open>resolve_prediction\<close> raises the TypeError.
\<close>

function poll_loop :: "(nat \<Rightarrow> exn + js) \<Rightarrow> nat \<Rightarrow> js \<Rightarrow> nat \<times> js" where
  "poll_loop get attempts finalPrediction =
     (if attempts < maxAttempts \<and> transient finalPrediction then
        (case get (attempts + 1) of
           Inl pollError \<Rightarrow> poll_loop get (attempts + 1) finalPrediction
         | Inr d \<Rightarrow>
             if terminal d then (attempts + 1, d) else poll_loop get (attempts + 1) d)
      else (attempts, finalPrediction))"
  by pat_completeness auto
termination
  by (relation "measure (\<lambda>(get, attempts, p). maxAttempts - attempts)") auto

text \<open>
  Lines 112-164: a handle whose status is transient is polled, and \<^verbatim>\<open>status\<close>,
  \<^verbatim>\<open>output\<close> and \<^verbatim>\<open>error\<close> of \<open>jsonData\<close> are overwritten with the final prediction's.
\<close>

definition resolve_prediction :: "world \<Rightarrow> js \<Rightarrow> effects \<Rightarrow> (exn + js) \<times> effects" where
  "resolve_prediction w jsonData eff =
     (if js_get jsonData ''status'' = Str ''starting''
         \<or> js_get jsonData ''status'' = Str ''processing'' then
        (let (attempts, finalPrediction) = poll_loop (poll w) 0 jsonData;
             eff' = eff\<lparr>polls := polls eff + attempts\<rparr>
         in if nullish finalPrediction then (Inl (cannot_read finalPrediction ''status''), eff')
            else (Inr (set_prop (set_prop (set_prop jsonData
                         ''status'' (js_get finalPrediction ''status''))
                         ''output'' (js_get finalPrediction ''output''))
                         ''error'' (js_get finalPrediction ''error'')), eff'))
      else (Inr jsonData, eff))"

section \<open>Extracting the image\<close>

definition is_url :: "string \<Rightarrow> bool" where
  "is_url s \<longleftrightarrow> startsWith s ''http://'' \<or> startsWith s ''https://''"

text \<open>Lines 178-184: the secondary fetch of an image URL and its base64 text.\<close>

definition fetch_base64 :: "world \<Rightarrow> string \<Rightarrow> effects \<Rightarrow> (exn + js) \<times> effects" where
  "fetch_base64 w url eff =
     (let eff' = eff\<lparr>fetches := fetches eff @ [url]\<rparr>
      in case fetch w url of
           Inl e \<Rightarrow> (Inl e, eff')
         | Inr imageData \<Rightarrow> (Inr (Str (base64 imageData)), eff'))"

text \<open>Lines 227-243 and 382-396: a prediction that did not succeed with an output.\<close>

definition prediction_error :: "runtime \<Rightarrow> js \<Rightarrow> exn" where
  "prediction_error rt jsonData =
     (let st = js_get jsonData ''status'' in
      if st = Str ''failed'' then
        new_Error (ToString (Number_toString rt)
                     (js_or (js_get jsonData ''error'') (Str ''Image generation failed'')))
      else if st = Str ''processing'' \<or> st = Str ''starting'' then
        new_Error (''Image generation is still processing after polling. Status: ''
                   @ ToString (Number_toString rt) st)
      else
        new_Error (''Unexpected prediction status: '' @ ToString (Number_toString rt) st))"

text \<open>Lines 166-243: the output of a prediction, in the branch for a buffer.\<close>

definition prediction_image_buffer ::
  "runtime \<Rightarrow> world \<Rightarrow> js \<Rightarrow> effects \<Rightarrow> (exn + js) \<times> effects" where
  "prediction_image_buffer rt w jsonData eff =
     (let output = js_get jsonData ''output'' in
      if js_get jsonData ''status'' = Str ''succeeded'' \<and> truthy output then
        (if isArray output \<and> truthy (first_elem output) then
           (case first_elem output of
              Str out \<Rightarrow>
                if is_url out then fetch_base64 w out eff
                else if startsWith out ''data:'' then (Inr (split_comma_1 out), eff)
                else if js_length out > 100 then (Inr (Str out), eff)
                else (Inl (new_Error ''Prediction succeeded but no valid image output found''), eff)
            | other \<Rightarrow>
                (Inl (new_Error ''Prediction succeeded but no valid image output found''), eff))
         else
           (case output of
              Str out \<Rightarrow>
                if is_url out then fetch_base64 w out eff
                else (Inr (if startsWith out ''data:'' then split_comma_1 out else Str out), eff)
            | other \<Rightarrow>
                (Inl (new_Error ''Prediction succeeded but output format is unexpected''), eff)))
      else (Inl (prediction_error rt jsonData), eff))"

text \<open>Lines 354-396: the output of a prediction, in the branch for a string.\<close>

definition prediction_image_string ::
  "runtime \<Rightarrow> world \<Rightarrow> js \<Rightarrow> effects \<Rightarrow> (exn + js) \<times> effects" where
  "prediction_image_string rt w jsonData eff =
     (let output = js_get jsonData ''output'' in
      if js_get jsonData ''status'' = Str ''succeeded'' \<and> truthy output then
        (case (if isArray output then first_elem output else output) of
           Str out \<Rightarrow>
             if is_url out then fetch_base64 w out eff
             else (Inr (if startsWith out ''data:'' then split_comma_1 out else Str out), eff)
         | other \<Rightarrow> (Inl (new_Error ''Prediction output format is unexpected''), eff))
      else (Inl (prediction_error rt jsonData), eff))"

text \<open>
  Lines 102-268, the body of the \<^verbatim>\<open>try\<close> once the buffer's text has been parsed:
  a prediction object, an error object, an image inside the JSON, or else the bytes.
\<close>

definition json_of_buffer ::
  "runtime \<Rightarrow> world \<Rightarrow> byte list \<Rightarrow> js \<Rightarrow> effects \<Rightarrow> (exn + js) \<times> effects" where
  "json_of_buffer rt w responseData jsonData eff =
     (if nullish jsonData then (Inl (cannot_read jsonData ''id''), eff)
      else if truthy (js_get jsonData ''id'') \<and> truthy (js_get jsonData ''status'') then
        (case resolve_prediction w jsonData eff of
           (Inl e, eff') \<Rightarrow> (Inl e, eff')
         | (Inr jsonData', eff') \<Rightarrow> prediction_image_buffer rt w jsonData' eff')
      else if truthy (js_get jsonData ''error'') \<or> truthy (js_get jsonData ''message'') then
        (Inl (new_Error (ToString (Number_toString rt)
               (js_or (js_get jsonData ''error'')
                  (js_or (js_get jsonData ''message'') (Str ''Replicate API returned an error''))))),
         eff)
      else if truthy (js_get jsonData ''images'') \<and> isArray (js_get jsonData ''images'')
              \<and> truthy (first_elem (js_get jsonData ''images'')) then
        (Inr (first_elem (js_get jsonData ''images'')), eff)
      else if truthy (js_get jsonData ''image'') then (Inr (js_get jsonData ''image''), eff)
      else (Inr (Str (base64 responseData)), eff))"

text \<open>
  Lines 89-287, the branch for a buffer: the \<^verbatim>\<open>try\<close> and its \<^verbatim>\<open>catch (parseError)\<close>, which
  rethrows an error whose message contains \<^verbatim>\<open>processing\<close> or \<^verbatim>\<open>Status:\<close> and turns every
  other error into the base64 text of the bytes.
\<close>

definition from_buffer ::
  "runtime \<Rightarrow> world \<Rightarrow> byte list \<Rightarrow> effects \<Rightarrow> (exn + js) \<times> effects" where
  "from_buffer rt w responseData eff =
     (let responseText = utf8_toString rt responseData;
          tried =
            (if startsWith (trim responseText) ''{'' \<or> startsWith (trim responseText) ''['' then
               (case JSON_parse rt responseText of
                  Inl m \<Rightarrow> (Inl (new_Error m), eff)
                | Inr jsonData \<Rightarrow> json_of_buffer rt w responseData jsonData eff)
             else (Inr (Str (base64 responseData)), eff))
      in case tried of
           (Inl parseError, eff') \<Rightarrow>
             if str_includes (message parseError) ''processing''
                \<or> str_includes (message parseError) ''Status:''
             then (Inl parseError, eff')
             else (Inr (Str (base64 responseData)), eff')
         | (Inr imageBase64, eff') \<Rightarrow> (Inr imageBase64, eff'))"

text \<open>
  Lines 289-421, the branch for a string ("Case 2"): every error is rethrown.
\<close>

definition from_string ::
  "runtime \<Rightarrow> world \<Rightarrow> string \<Rightarrow> effects \<Rightarrow> (exn + js) \<times> effects" where
  "from_string rt w responseData eff =
     (case JSON_parse rt responseData of
        Inl m \<Rightarrow> (Inl (new_Error m), eff)
      | Inr jsonData \<Rightarrow>
          if nullish jsonData then (Inl (cannot_read jsonData ''id''), eff)
          else if truthy (js_get jsonData ''id'') \<and> truthy (js_get jsonData ''status'') then
            (case resolve_prediction w jsonData eff of
               (Inl e, eff') \<Rightarrow> (Inl e, eff')
             | (Inr jsonData', eff') \<Rightarrow> prediction_image_string rt w jsonData' eff')
          else if truthy (js_get jsonData ''error'') \<or> truthy (js_get jsonData ''message'') then
            (Inl (new_Error (ToString (Number_toString rt)
                   (js_or (js_get jsonData ''error'')
                      (js_or (js_get jsonData ''message'') (Str ''API returned an error''))))),
             eff)
          else if truthy (js_get jsonData ''images'') \<and> isArray (js_get jsonData ''images'')
                  \<and> truthy (first_elem (js_get jsonData ''images'')) then
            (Inr (first_elem (js_get jsonData ''images'')), eff)
          else if truthy (js_get jsonData ''image'') then (Inr (js_get jsonData ''image''), eff)
          else (Inl (new_Error ''No image data found in JSON response''), eff))"

text \<open>
  The chain of \<^verbatim>\<open>if\<close> / \<^verbatim>\<open>else if\<close> of lines 89, 289, 423 and 428 picks one of four cases
  by the type of \<open>responseData\<close>, in this order.
\<close>

fun is_buffer :: "raw \<Rightarrow> bool" where
  "is_buffer (Bytes bs) = True"
| "is_buffer d = False"

fun typeof_string :: "raw \<Rightarrow> bool" where
  "typeof_string (Value (Str s)) = True"
| "typeof_string d = False"

fun the_bytes :: "raw \<Rightarrow> byte list" where
  "the_bytes (Bytes bs) = bs"
| "the_bytes d = []"

fun the_text :: "raw \<Rightarrow> string" where
  "the_text (Value (Str s)) = s"
| "the_text d = []"

definition response_case :: "raw \<Rightarrow> nat" where
  "response_case responseData =
     (if is_buffer responseData then 1
      else if typeof_string responseData then 2
      else if typeof_string responseData \<and> js_length (the_text responseData) > 100 then 3
      else 4)"

definition extract_image ::
  "runtime \<Rightarrow> world \<Rightarrow> raw \<Rightarrow> effects \<Rightarrow> (exn + js) \<times> effects" where
  "extract_image rt w responseData eff =
     (if response_case responseData = 1 then from_buffer rt w (the_bytes responseData) eff
      else if response_case responseData = 2 then from_string rt w (the_text responseData) eff
      else if response_case responseData = 3 then
        (Inr (Str (strip_data_uri (the_text responseData))), eff)
      else
        (case Buffer_from rt responseData of
           Inl m \<Rightarrow> (Inl (new_Error m), eff)
         | Inr bs \<Rightarrow> (Inr (Str (base64 bs)), eff)))"

section \<open>The controller\<close>

text \<open>
  Lines 465-517, the outer \<^verbatim>\<open>catch\<close>: the message of the error, replaced by the \<^verbatim>\<open>error\<close> or
  \<^verbatim>\<open>message\<close> field of the upstream's reply when the error carries one; the status of that
  reply, or 500. The reply's data is a buffer (its text is parsed), an object or an array
  (\<^verbatim>\<open>typeof\<close> is \<^verbatim>\<open>"object"\<close> and it is not \<^verbatim>\<open>null\<close>), or a string (parsed, and used itself when
  it does not parse).
\<close>

definition error_fields :: "js \<Rightarrow> js \<Rightarrow> js" where
  "error_fields errorJson errorMessage =
     js_or (js_get errorJson ''error'') (js_or (js_get errorJson ''message'') errorMessage)"

definition catch_reply :: "runtime \<Rightarrow> exn \<Rightarrow> reply" where
  "catch_reply rt error =
     (let errorMessage0 = Str (if message error \<noteq> [] then message error else ''Image generation failed'');
          errorMessage =
            (case response error of
               None \<Rightarrow> errorMessage0
             | Some (st, Bytes bs) \<Rightarrow>
                 (case JSON_parse rt (utf8_toString rt bs) of
                    Inl m \<Rightarrow> errorMessage0
                  | Inr errorJson \<Rightarrow>
                      if nullish errorJson then errorMessage0
                      else error_fields errorJson errorMessage0)
             | Some (st, Value (Arr xs)) \<Rightarrow> error_fields (Arr xs) errorMessage0
             | Some (st, Value (Obj kv)) \<Rightarrow> error_fields (Obj kv) errorMessage0
             | Some (st, Value (Str s)) \<Rightarrow>
                 (case JSON_parse rt s of
                    Inl m \<Rightarrow> js_or (Str s) errorMessage0
                  | Inr errorJson \<Rightarrow>
                      if nullish errorJson then js_or (Str s) errorMessage0
                      else error_fields errorJson errorMessage0)
             | Some (st, Value other) \<Rightarrow> errorMessage0)
      in failure
           (case response error of
              None \<Rightarrow> 500
            | Some (st, d) \<Rightarrow> if st \<noteq> 0 then st else 500)
           (case errorMessage of Str s \<Rightarrow> s | other \<Rightarrow> ''Image generation failed''))"

text \<open>\<^verbatim>\<open>imageBase64.length === 0\<close>\<close>

fun length_is_zero :: "js \<Rightarrow> bool" where
  "length_is_zero (Str s) = (s = [])"
| "length_is_zero (Arr xs) = (xs = [])"
| "length_is_zero (Obj kv) = (js_get (Obj kv) ''length'' = Num 0)"
| "length_is_zero v = False"

text \<open>
  Lines 433-464: the check that there is image data, the removal of a data-URI prefix,
  the debit and the success response. \<^verbatim>\<open>imageBase64.replace\<close> exists on a string only;
  an error thrown here (by \<^verbatim>\<open>replace\<close> or by \<^verbatim>\<open>user.save()\<close>) reaches the outer \<^verbatim>\<open>catch\<close>.
\<close>

definition deliver ::
  "runtime \<Rightarrow> world \<Rightarrow> account \<Rightarrow> js \<Rightarrow> effects \<Rightarrow> reply \<times> effects" where
  "deliver rt w user imageBase64 eff =
     (if \<not> truthy imageBase64 \<or> length_is_zero imageBase64 then
        (failure 500 ''No image data returned from Hugging Face API.'', eff)
      else
        (case imageBase64 of
           Str s \<Rightarrow>
             (let cleanBase64 = strip_data_uri s;
                  user' = user\<lparr>creditBalance := debit (creditBalance user)\<rparr>;
                  eff' = eff\<lparr>saves := saves eff @ [user']\<rparr>
              in case save w user' of
                   Some error \<Rightarrow> (catch_reply rt error, eff')
                 | None \<Rightarrow>
                     (\<lparr>status = 200, success = True, msg = ''Image generated successfully'',
                       reply_creditBalance = Some (creditBalance user'),
                       resultImage = Some (''data:image/png;base64,'' @ cleanBase64)\<rparr>, eff'))
         | other \<Rightarrow>
             (catch_reply rt (new_Error ''imageBase64.replace is not a function''), eff)))"

text \<open>Lines 8-76: validation, the account, the credit gate, the token gate, the POST.\<close>

definition generateImage :: "runtime \<Rightarrow> world \<Rightarrow> request \<Rightarrow> reply \<times> effects" where
  "generateImage rt w req =
     (if \<not> truthy (userId req) \<or> \<not> truthy (prompt req) then
        (failure 400 ''Missing userId or prompt.'', no_effects)
      else
        (case findById w (userId req) of
           Inl error \<Rightarrow> (catch_reply rt error, no_effects)
         | Inr None \<Rightarrow> (failure 404 ''User not found.'', no_effects)
         | Inr (Some user) \<Rightarrow>
             if creditBalance user \<le> 0 then
               ((failure 403 ''No Credit Balance'')
                   \<lparr>reply_creditBalance := Some (creditBalance user)\<rparr>, no_effects)
             else if HF_TOKEN w = None \<or> HF_TOKEN w = Some [] then
               (failure 500
                  ''Hugging Face API token not configured. Please check HF_TOKEN environment variable.'',
                no_effects)
             else
               (case post w (prompt req) of
                  Inl error \<Rightarrow> (catch_reply rt error, no_effects\<lparr>posts := 1\<rparr>)
                | Inr responseData \<Rightarrow>
                    (case extract_image rt w responseData (no_effects\<lparr>posts := 1\<rparr>) of
                       (Inl error, eff) \<Rightarrow> (catch_reply rt error, eff)
                     | (Inr imageBase64, eff) \<Rightarrow> deliver rt w user imageBase64 eff))))"

section \<open>A runtime to evaluate examples with\<close>

text \<open>
  The theorems below hold for every runtime. To run the controller on concrete replies,
  \<open>node\<close> supplies the four library functions: a JSON parser for the grammar of RFC 8259
  (the wording of its SyntaxError is its own), the UTF-8 decoder, the text of a number,
  and \<^verbatim>\<open>Buffer.from\<close>.
\<close>

text \<open>
  \<^verbatim>\<open>Buffer.toString("utf-8")\<close>: a well-formed sequence is kept, and each maximal
  ill-formed subpart becomes U+FFFD (the bytes EF BF BD). \<open>utf8_head\<close> gives the length of
  the sequence or subpart at the head of the input and whether it is well-formed.
\<close>

definition is_cont :: "byte \<Rightarrow> bool" where
  "is_cont b \<longleftrightarrow> 0x80 \<le> unat b \<and> unat b \<le> 0xBF"

definition second_of_3 :: "byte \<Rightarrow> byte \<Rightarrow> bool" where
  "second_of_3 a b =
     (if unat a = 0xE0 then 0xA0 \<le> unat b \<and> unat b \<le> 0xBF
      else if unat a = 0xED then 0x80 \<le> unat b \<and> unat b \<le> 0x9F
      else is_cont b)"

definition second_of_4 :: "byte \<Rightarrow> byte \<Rightarrow> bool" where
  "second_of_4 a b =
     (if unat a = 0xF0 then 0x90 \<le> unat b \<and> unat b \<le> 0xBF
      else if unat a = 0xF4 then 0x80 \<le> unat b \<and> unat b \<le> 0x8F
      else is_cont b)"

fun utf8_head :: "byte list \<Rightarrow> nat \<times> bool" where
  "utf8_head [] = (0, True)"
| "utf8_head (a # bs) =
     (if unat a < 0x80 then (1, True)
      else if 0xC2 \<le> unat a \<and> unat a \<le> 0xDF then
        (case bs of
           b # bs' \<Rightarrow> if is_cont b then (2, True) else (1, False)
         | [] \<Rightarrow> (1, False))
      else if 0xE0 \<le> unat a \<and> unat a \<le> 0xEF then
        (case bs of
           b # c # bs' \<Rightarrow>
             if second_of_3 a b then (if is_cont c then (3, True) else (2, False))
             else (1, False)
         | [b] \<Rightarrow> if second_of_3 a b then (2, False) else (1, False)
         | [] \<Rightarrow> (1, False))
      else if 0xF0 \<le> unat a \<and> unat a \<le> 0xF4 then
        (case bs of
           b # c # d # bs' \<Rightarrow>
             if second_of_4 a b then
               (if is_cont c then (if is_cont d then (4, True) else (3, False)) else (2, False))
             else (1, False)
         | [b, c] \<Rightarrow>
             if second_of_4 a b then (if is_cont c then (3, False) else (2, False))
             else (1, False)
         | [b] \<Rightarrow> if second_of_4 a b then (2, False) else (1, False)
         | [] \<Rightarrow> (1, False))
      else (1, False))"

function utf8_decode :: "byte list \<Rightarrow> string" where
  "utf8_decode bs =
     (if bs = [] then []
      else
        (if snd (utf8_head bs) then map (\<lambda>b. char_of (unat b)) (take (fst (utf8_head bs)) bs)
         else [CHR 0xEF, CHR 0xBF, CHR 0xBD])
        @ utf8_decode (drop (max 1 (fst (utf8_head bs))) bs))"
  by pat_completeness auto
termination
  by (relation "measure length") auto

definition is_json_ws :: "char \<Rightarrow> bool" where
  "is_json_ws c \<longleftrightarrow> of_char c \<in> {32, 9, 10, 13 :: nat}"

definition skip_ws :: "string \<Rightarrow> string" where
  "skip_ws s = dropWhile is_json_ws s"

definition is_digit :: "char \<Rightarrow> bool" where
  "is_digit c \<longleftrightarrow> 48 \<le> (of_char c :: nat) \<and> (of_char c :: nat) \<le> 57"

definition digits_value :: "string \<Rightarrow> nat" where
  "digits_value ds = foldl (\<lambda>n c. 10 * n + (of_char c - 48)) 0 ds"

definition hex_value :: "char \<Rightarrow> nat option" where
  "hex_value c =
     (let n = (of_char c :: nat) in
      if 48 \<le> n \<and> n \<le> 57 then Some (n - 48)
      else if 65 \<le> n \<and> n \<le> 70 then Some (n - 55)
      else if 97 \<le> n \<and> n \<le> 102 then Some (n - 87)
      else None)"

definition unescape :: "char \<Rightarrow> char option" where
  "unescape e =
     (if e = CHR 0x22 \<or> e = CHR 0x5C \<or> e = CHR ''/'' then Some e
      else if e = CHR ''b'' then Some (CHR 0x08)
      else if e = CHR ''f'' then Some (CHR 0x0C)
      else if e = CHR ''n'' then Some (CHR 0x0A)
      else if e = CHR ''r'' then Some (CHR 0x0D)
      else if e = CHR ''t'' then Some (CHR 0x09)
      else None)"

text \<open>The characters of a string literal after its opening quote, and the rest of the input.
  A \<^verbatim>\<open>\u\<close> escape above \<^verbatim>\<open>00ff\<close> does not fit a \<open>char\<close> and is rejected.\<close>

fun parse_chars :: "string \<Rightarrow> (string \<times> string) option" where
  "parse_chars [] = None"
| "parse_chars (c # cs) =
     (if c = CHR 0x22 then Some ([], cs)
      else if c = CHR 0x5C then
        (case cs of
           [] \<Rightarrow> None
         | e # r \<Rightarrow>
             if e = CHR ''u'' then
               (case r of
                  h1 # h2 # h3 # h4 # r' \<Rightarrow>
                    (case (hex_value h1, hex_value h2, hex_value h3, hex_value h4) of
                       (Some a, Some b, Some c', Some d) \<Rightarrow>
                         if a = 0 \<and> b = 0 then
                           map_option (\<lambda>(x, u). (char_of (16 * c' + d) # x, u)) (parse_chars r')
                         else None
                     | other \<Rightarrow> None)
                | other \<Rightarrow> None)
             else
               (case unescape e of
                  Some x \<Rightarrow> map_option (\<lambda>(y, u). (x # y, u)) (parse_chars r)
                | None \<Rightarrow> None))
      else if (of_char c :: nat) < 32 then None
      else map_option (\<lambda>(x, u). (c # x, u)) (parse_chars cs))"

text \<open>
  A number literal: sign, integer part without a leading zero, fraction, exponent. Its
  value is the decimal value of the literal; a literal of magnitude at most \<open>2\<^sup>-\<^sup>1\<^sup>0\<^sup>7\<^sup>5\<close>
  rounds to zero, as it does in a double (the rounding to 53 bits of any other value is not
  modelled).
\<close>

definition pow10 :: "int \<Rightarrow> rat" where
  "pow10 e = (if 0 \<le> e then 10 ^ nat e else 1 / 10 ^ nat (- e))"

definition parse_number :: "string \<Rightarrow> (rat \<times> string) option" where
  "parse_number s =
     (let neg = startsWith s ''-'';
          s1 = (if neg then drop 1 s else s);
          ip = takeWhile is_digit s1;
          s2 = dropWhile is_digit s1;
          has_frac = startsWith s2 ''.'';
          fp = (if has_frac then takeWhile is_digit (drop 1 s2) else []);
          s3 = (if has_frac then dropWhile is_digit (drop 1 s2) else s2);
          has_exp = startsWith s3 ''e'' \<or> startsWith s3 ''E'';
          s4 = (if has_exp then drop 1 s3 else s3);
          eneg = has_exp \<and> startsWith s4 ''-'';
          s5 = (if has_exp \<and> (startsWith s4 ''-'' \<or> startsWith s4 ''+'') then drop 1 s4 else s4);
          ep = (if has_exp then takeWhile is_digit s5 else []);
          s6 = (if has_exp then dropWhile is_digit s5 else s3);
          e = (if eneg then - int (digits_value ep) else int (digits_value ep)) - int (length fp);
          q0 = of_nat (digits_value (ip @ fp)) * pow10 e;
          q = (if q0 \<le> 1 / 2 ^ 1075 then 0 else q0)
      in if ip = [] \<or> (length ip > 1 \<and> startsWith ip ''0'') \<or> (has_frac \<and> fp = [])
            \<or> (has_exp \<and> ep = [])
         then None else Some (if neg then - q else q, s6))"

text \<open>
  Recursive descent with fuel: each call consumes a character before it calls again at
  most twice, so \<open>2 * length s + 2\<close> is enough for the text \<open>s\<close>. The members of an object
  are collected last first: a repeated key has the value of its last occurrence.
\<close>

fun parse_value :: "nat \<Rightarrow> string \<Rightarrow> (js \<times> string) option"
and parse_elements :: "nat \<Rightarrow> string \<Rightarrow> js list \<Rightarrow> (js list \<times> string) option"
and parse_members ::
  "nat \<Rightarrow> string \<Rightarrow> (string \<times> js) list \<Rightarrow> ((string \<times> js) list \<times> string) option"
where
  "parse_value 0 s = None"
| "parse_value (Suc n) s =
     (let t = skip_ws s in
      if startsWith t ''null'' then Some (Null, drop 4 t)
      else if startsWith t ''true'' then Some (Bool True, drop 4 t)
      else if startsWith t ''false'' then Some (Bool False, drop 5 t)
      else
        (case t of
           [] \<Rightarrow> None
         | c # r \<Rightarrow>
             if c = CHR 0x22 then map_option (\<lambda>(x, u). (Str x, u)) (parse_chars r)
             else if c = CHR ''['' then
               (if startsWith (skip_ws r) '']'' then Some (Arr [], drop 1 (skip_ws r))
                else map_option (\<lambda>(xs, u). (Arr xs, u)) (parse_elements n r []))
             else if c = CHR ''{'' then
               (if startsWith (skip_ws r) ''}'' then Some (Obj [], drop 1 (skip_ws r))
                else map_option (\<lambda>(kv, u). (Obj kv, u)) (parse_members n r []))
             else map_option (\<lambda>(q, u). (Num q, u)) (parse_number t)))"
| "parse_elements 0 s acc = None"
| "parse_elements (Suc n) s acc =
     (case parse_value n s of
        None \<Rightarrow> None
      | Some (v, u) \<Rightarrow>
          if startsWith (skip_ws u) '','' then parse_elements n (drop 1 (skip_ws u)) (acc @ [v])
          else if startsWith (skip_ws u) '']'' then Some (acc @ [v], drop 1 (skip_ws u))
          else None)"
| "parse_members 0 s acc = None"
| "parse_members (Suc n) s acc =
     (if startsWith (skip_ws s) [CHR 0x22] then
        (case parse_chars (drop 1 (skip_ws s)) of
           None \<Rightarrow> None
         | Some (k, u) \<Rightarrow>
             if startsWith (skip_ws u) '':'' then
               (case parse_value n (drop 1 (skip_ws u)) of
                  None \<Rightarrow> None
                | Some (v, u') \<Rightarrow>
                    if startsWith (skip_ws u') '','' then
                      parse_members n (drop 1 (skip_ws u')) ((k, v) # acc)
                    else if startsWith (skip_ws u') ''}'' then
                      Some ((k, v) # acc, drop 1 (skip_ws u'))
                    else None)
             else None)
      else None)"

definition node_JSON_parse :: "string \<Rightarrow> string + js" where
  "node_JSON_parse s =
     (case parse_value (2 * length s + 2) s of
        Some (v, r) \<Rightarrow>
          if skip_ws r = [] then Inr v
          else Inl ''Unexpected non-whitespace character after JSON''
      | None \<Rightarrow> Inl ''Unexpected token in JSON'')"

text \<open>
  The text of a number: the decimal digits of its integer part and, after a point, of its
  fraction. That is what \<^verbatim>\<open>String\<close> gives for a number of at most 15 significant digits
  that is 0 or of a magnitude from \<open>10\<^sup>-\<^sup>6\<close> up to \<open>10\<^sup>2\<^sup>1\<close>; beyond that range the engine
  writes an exponent, which is not modelled.
\<close>

fun decimal :: "nat \<Rightarrow> nat \<Rightarrow> string" where
  "decimal 0 n = []"
| "decimal (Suc fuel) n =
     (if n < 10 then [char_of (48 + n)] else decimal fuel (n div 10) @ [char_of (48 + n mod 10)])"

fun fraction_digits :: "nat \<Rightarrow> nat \<Rightarrow> nat \<Rightarrow> string" where
  "fraction_digits 0 r b = []"
| "fraction_digits (Suc fuel) r b =
     (if r = 0 then [] else char_of (48 + (10 * r) div b) # fraction_digits fuel ((10 * r) mod b) b)"

definition node_Number_toString :: "rat \<Rightarrow> string" where
  "node_Number_toString q =
     (let a = nat \<bar>fst (quotient_of q)\<bar>; b = nat (snd (quotient_of q)) in
      (if q < 0 then ''-'' else []) @ decimal (a div b + 1) (a div b)
      @ (if a mod b = 0 then [] else ''.'' @ fraction_digits 400 (a mod b) b))"

text \<open>
  \<^verbatim>\<open>Buffer.from(v)\<close> for what reaches line 430: the UTF-8 bytes of a string, the elements
  of an array as bytes (a number truncated and reduced modulo 256, \<^verbatim>\<open>true\<close> as 1, every
  other element as 0, which for a string element holds when it is not numeric), and a
  TypeError for a plain object, a number, a boolean, \<^verbatim>\<open>null\<close> and \<^verbatim>\<open>undefined\<close> (an
  array-like object, with a \<^verbatim>\<open>length\<close>, is not modelled).
\<close>

fun to_uint8 :: "js \<Rightarrow> byte" where
  "to_uint8 (Num q) = of_int (if 0 \<le> q then \<lfloor>q\<rfloor> else \<lceil>q\<rceil>)"
| "to_uint8 (Bool b) = (if b then 1 else 0)"
| "to_uint8 v = 0"

fun node_Buffer_from :: "raw \<Rightarrow> string + byte list" where
  "node_Buffer_from (Bytes bs) = Inr bs"
| "node_Buffer_from (Value (Str s)) = Inr (map of_char s)"
| "node_Buffer_from (Value (Arr xs)) = Inr (map to_uint8 xs)"
| "node_Buffer_from (Value v) =
     Inl ''The first argument must be of type string or an instance of Buffer, ArrayBuffer, or Array or an Array-like Object.''"

definition node :: runtime where
  "node = \<lparr>JSON_parse = node_JSON_parse,
           utf8_toString = utf8_decode,
           Number_toString = node_Number_toString,
           Buffer_from = node_Buffer_from\<rparr>"

definition utf8_bytes :: "string \<Rightarrow> byte list" where
  "utf8_bytes s = map of_char s"

section \<open>Example worlds\<close>

definition alice :: account where
  "alice = \<lparr>account_id = ''u1'', creditBalance = 5\<rparr>"

text \<open>
  A world with the token configured and one account, \<open>alice\<close>, under the id \<^verbatim>\<open>u1\<close>; the
  POST is answered by \<open>upstream\<close> and the \<open>k\<close>-th poll by \<open>polled k\<close>.
\<close>

definition demo_world :: "(exn + raw) \<Rightarrow> (nat \<Rightarrow> exn + js) \<Rightarrow> world" where
  "demo_world upstream polled =
     \<lparr>HF_TOKEN_env = Some ''hf_secret'',
      HUGGING_FACE_TOKEN_env = None,
      findById = (\<lambda>uid. Inr (if uid = Str ''u1'' then Some alice else None)),
      save = (\<lambda>u. None),
      post = (\<lambda>p. upstream),
      poll = polled,
      fetch = (\<lambda>url. Inl (new_Error ''Network Error''))\<rparr>"

definition no_polls :: "nat \<Rightarrow> exn + js" where
  "no_polls k = Inl (new_Error ''Network Error'')"

definition demo_request :: request where
  "demo_request = \<lparr>userId = Str ''u1'', prompt = Str ''a red fox''\<rparr>"

section \<open>Notions used to state the properties\<close>

text \<open>
  The JSON document that the controller reads out of a reply: the parsed text of a buffer
  whose trimmed text starts with a brace or a bracket (lines 96-102), the parsed text
  of a string (line 291). A buffer for which there is none is an opaque binary blob.
\<close>

fun parsed_reply :: "runtime \<Rightarrow> raw \<Rightarrow> js option" where
  "parsed_reply rt (Bytes bs) =
     (if startsWith (trim (utf8_toString rt bs)) ''{'' \<or> startsWith (trim (utf8_toString rt bs)) ''[''
      then (case JSON_parse rt (utf8_toString rt bs) of Inl m \<Rightarrow> None | Inr j \<Rightarrow> Some j)
      else None)"
| "parsed_reply rt (Value (Str s)) = (case JSON_parse rt s of Inl m \<Rightarrow> None | Inr j \<Rightarrow> Some j)"
| "parsed_reply rt (Value v) = None"

text \<open>
  One poll attempt leaves the handle in \<^verbatim>\<open>starting\<close> or \<^verbatim>\<open>processing\<close> when the GET is
  rejected (a network error) or answers with such a status; it reaches a terminal status
  when it answers \<^verbatim>\<open>succeeded\<close> or \<^verbatim>\<open>failed\<close>.
\<close>

definition stays_transient :: "exn + js \<Rightarrow> bool" where
  "stays_transient p = (case p of Inl e \<Rightarrow> True | Inr d \<Rightarrow> transient d)"

definition reaches_terminal :: "exn + js \<Rightarrow> bool" where
  "reaches_terminal p = (case p of Inl e \<Rightarrow> False | Inr d \<Rightarrow> terminal d)"

text \<open>
  The request passes the gates of lines 13-50: both fields are truthy, the account is
  \<open>u\<close> with a positive balance, and a token is configured.
\<close>

definition admitted :: "world \<Rightarrow> request \<Rightarrow> account \<Rightarrow> bool" where
  "admitted w req u \<longleftrightarrow>
     truthy (userId req) \<and> truthy (prompt req) \<and> findById w (userId req) = Inr (Some u)
     \<and> 0 < creditBalance u \<and> HF_TOKEN w \<noteq> None \<and> HF_TOKEN w \<noteq> Some []"

text \<open>
  The guard of the client's \<^verbatim>\<open>generateImage\<close> (\<^verbatim>\<open>client/src/context/AppContext.jsx\<close>, lines
  31-39): the prompt is posted to the controller only when
  \<^verbatim>\<open>!prompt || prompt.trim() === ""\<close> is false; \<^verbatim>\<open>trim\<close> exists on a string only, and the
  TypeError of any other value is caught and nothing is posted.
\<close>

definition client_posts_prompt :: "js \<Rightarrow> bool" where
  "client_posts_prompt p = (case p of Str s \<Rightarrow> s \<noteq> [] \<and> trim s \<noteq> [] | other \<Rightarrow> False)"

text \<open>The world of \<open>alice\<close> with another balance, the upstream answering with PNG bytes.\<close>

definition png_world :: "int \<Rightarrow> world" where
  "png_world balance =
     (demo_world (Inr (Bytes [137, 80, 78, 71, 13, 10, 26, 10])) no_polls)
       \<lparr>findById := (\<lambda>uid. Inr (Some (alice\<lparr>creditBalance := balance\<rparr>)))\<rparr>"

definition png_header :: "byte list" where
  "png_header = [137, 80, 78, 71, 13, 10, 26, 10]"

definition long_text :: string where
  "long_text = ''QUJDQUJDQUJDQUJDQUJDQUJDQUJDQUJDQUJDQUJDQUJDQUJDQUJDQUJDQUJDQUJDQUJDQUJDQUJDQUJDQUJDQUJDQUJDQUJDQUJDQUJD''"

text \<open>A prediction handle that the upstream answers the POST with, and two ways the
  polls can go: the status stays \<^verbatim>\<open>processing\<close> for ever; two polls time out and the
  third answers \<^verbatim>\<open>succeeded\<close> with a data URI.\<close>

definition handle_reply :: raw where
  \<open>handle_reply = Bytes (utf8_bytes ''{"id":"p1","status":"starting"}'')\<close>

definition always_processing :: "nat \<Rightarrow> exn + js" where
  "always_processing k = Inr (Obj [(''status'', Str ''processing'')])"

definition succeeds_on_third :: "nat \<Rightarrow> exn + js" where
  "succeeds_on_third k =
     (if k < 3 then Inl (new_Error ''timeout of 10000ms exceeded'')
      else Inr (Obj [(''status'', Str ''succeeded''),
                     (''output'', Arr [Str ''data:image/png;base64,QUJD''])]))"

section \<open>Properties\<close>

subsection \<open>What a stage leaves untouched\<close>

lemma catch_reply_fails: "success (catch_reply rt e) = False"
  by (simp add: catch_reply_def failure_def Let_def)

lemma failure_fails: "success (failure st m) = False"
  by (simp add: failure_def)

lemma fetch_base64_frame:
  "fetch_base64 w url eff = (r, eff') \<Longrightarrow>
     saves eff' = saves eff \<and> posts eff' = posts eff \<and> polls eff' = polls eff"
  by (auto simp: fetch_base64_def Let_def split: sum.splits)

lemma resolve_prediction_frame:
  "resolve_prediction w j eff = (r, eff') \<Longrightarrow> saves eff' = saves eff \<and> posts eff' = posts eff"
  by (auto simp: resolve_prediction_def Let_def split: if_splits prod.splits)

lemma prediction_image_buffer_frame:
  "prediction_image_buffer rt w j eff = (r, eff') \<Longrightarrow>
     saves eff' = saves eff \<and> posts eff' = posts eff \<and> polls eff' = polls eff"
  by (auto simp: prediction_image_buffer_def Let_def split: if_splits js.splits
      dest: fetch_base64_frame)

lemma prediction_image_string_frame:
  "prediction_image_string rt w j eff = (r, eff') \<Longrightarrow>
     saves eff' = saves eff \<and> posts eff' = posts eff \<and> polls eff' = polls eff"
  by (auto simp: prediction_image_string_def Let_def split: if_splits js.splits
      dest: fetch_base64_frame)

lemma json_of_buffer_frame:
  "json_of_buffer rt w bs j eff = (r, eff') \<Longrightarrow> saves eff' = saves eff \<and> posts eff' = posts eff"
  by (auto simp: json_of_buffer_def split: if_splits prod.splits sum.splits
      dest!: resolve_prediction_frame prediction_image_buffer_frame)

lemma from_buffer_frame:
  "from_buffer rt w bs eff = (r, eff') \<Longrightarrow> saves eff' = saves eff \<and> posts eff' = posts eff"
  by (auto simp: from_buffer_def Let_def split: if_splits prod.splits sum.splits
      dest!: json_of_buffer_frame)

lemma from_string_frame:
  "from_string rt w s eff = (r, eff') \<Longrightarrow> saves eff' = saves eff \<and> posts eff' = posts eff"
  by (auto simp: from_string_def split: if_splits prod.splits sum.splits
      dest!: resolve_prediction_frame prediction_image_string_frame)

lemma extract_image_frame:
  "extract_image rt w d eff = (r, eff') \<Longrightarrow> saves eff' = saves eff \<and> posts eff' = posts eff"
  by (auto simp: extract_image_def split: if_splits sum.splits
      dest!: from_buffer_frame from_string_frame)

subsection \<open>The last stage: debit and answer\<close>

lemma deliver_success:
  assumes "deliver rt w u img eff = (r, eff')" and "success r"
  shows "\<exists>s. img = Str s \<and> s \<noteq> [] \<and>
           save w (u\<lparr>creditBalance := debit (creditBalance u)\<rparr>) = None \<and>
           eff' = eff\<lparr>saves := saves eff @ [u\<lparr>creditBalance := debit (creditBalance u)\<rparr>]\<rparr> \<and>
           reply_creditBalance r = Some (debit (creditBalance u)) \<and>
           resultImage r = Some (''data:image/png;base64,'' @ strip_data_uri s)"
  using assms
  by (auto simp: deliver_def Let_def catch_reply_fails failure_fails
      split: if_splits js.splits option.splits)

lemma deliver_failure:
  assumes "deliver rt w u img eff = (r, eff')" and "\<not> success r"
  shows "eff' = eff \<or>
         (\<exists>e. save w (u\<lparr>creditBalance := debit (creditBalance u)\<rparr>) = Some e \<and>
              eff' = eff\<lparr>saves := saves eff @ [u\<lparr>creditBalance := debit (creditBalance u)\<rparr>]\<rparr>)"
  using assms
  by (auto simp: deliver_def Let_def split: if_splits js.splits option.splits)

lemma run_png:
  "generateImage node (demo_world (Inr (Bytes png_header)) no_polls) demo_request =
     (\<lparr>status = 200, success = True, msg = ''Image generated successfully'',
       reply_creditBalance = Some 4,
       resultImage = Some ''data:image/png;base64,iVBORw0KGgo=''\<rparr>,
      \<lparr>posts = 1, polls = 0, fetches = [],
       saves = [\<lparr>account_id = ''u1'', creditBalance = 4\<rparr>]\<rparr>)"
  by code_simp

subsection \<open>The credit ledger\<close>

lemma bit_length_le: "n < 2 ^ k \<Longrightarrow> bit_length n \<le> k"
proof (induction k arbitrary: n)
  case 0
  then show ?case by simp
next
  case (Suc k)
  show ?case
  proof (cases "n \<le> 0")
    case True
    then show ?thesis by simp
  next
    case False
    from Suc.prems have "n div 2 < 2 ^ k" by simp
    then have "bit_length (n div 2) \<le> k" by (rule Suc.IH)
    with False show ?thesis by (subst bit_length.simps) simp
  qed
qed

lemma to_double_exact:
  assumes "\<bar>n\<bar> < 2 ^ 53"
  shows "to_double n = n"
proof -
  from assms have "bit_length \<bar>n\<bar> \<le> 53" by (rule bit_length_le)
  then have u: "bit_length \<bar>n\<bar> - 53 = 0" by simp
  show ?thesis
    unfolding to_double_def Let_def u
    by (simp add: sgn_if)
qed

lemma debit_exact:
  assumes "0 < b" and "b \<le> 2 ^ 53"
  shows "debit b = b - 1"
proof -
  have "\<bar>b - 1\<bar> < 2 ^ 53" using assms by simp
  then have "to_double (b - 1) = b - 1" by (rule to_double_exact)
  with assms(1) show ?thesis by (simp add: debit_def)
qed

text \<open>
  C2, as stated: for every positive balance a successful run decreases it by exactly 1.
  The subtraction of line 455 is one of doubles. At the balance \<open>10\<^sup>1\<^sup>6\<close> the difference
  rounds back to \<open>10\<^sup>1\<^sup>6\<close>: the run succeeds, and saves and reports the balance unchanged.
  At \<open>2\<^sup>5\<^sup>3 + 2\<close> it rounds to \<open>2\<^sup>5\<^sup>3\<close>: the balance decreases by 2.
\<close>

theorem debit_of_large_balance_counterexample:
  "generateImage node (png_world 10000000000000000) demo_request =
     (\<lparr>status = 200, success = True, msg = ''Image generated successfully'',
       reply_creditBalance = Some 10000000000000000,
       resultImage = Some ''data:image/png;base64,iVBORw0KGgo=''\<rparr>,
      \<lparr>posts = 1, polls = 0, fetches = [],
       saves = [\<lparr>account_id = ''u1'', creditBalance = 10000000000000000\<rparr>]\<rparr>)
   \<and> generateImage node (png_world 9007199254740994) demo_request =
     (\<lparr>status = 200, success = True, msg = ''Image generated successfully'',
       reply_creditBalance = Some 9007199254740992,
       resultImage = Some ''data:image/png;base64,iVBORw0KGgo=''\<rparr>,
      \<lparr>posts = 1, polls = 0, fetches = [],
       saves = [\<lparr>account_id = ''u1'', creditBalance = 9007199254740992\<rparr>]\<rparr>)"
  by code_simp

text \<open>
  C2, amended. For a request with a non-empty prompt whose account exists with a balance
  of at least 1 and at most \<open>2\<^sup>5\<^sup>3\<close> (where the subtraction of line 455 is exact), a run
  that answers with success hands exactly one document to \<^verbatim>\<open>user.save()\<close>, the account
  with its balance decreased by exactly 1; that save resolved, so the decrement is
  persisted exactly once; and the balance in the answer is the old balance minus 1.
\<close>

theorem success_debits_exactly_one:
  assumes "truthy (prompt req)"
    and "findById w (userId req) = Inr (Some u)"
    and "0 < creditBalance u"
    and "creditBalance u \<le> 2 ^ 53"
    and "generateImage rt w req = (r, eff)"
    and "success r"
  shows "saves eff = [u\<lparr>creditBalance := creditBalance u - 1\<rparr>]
       \<and> persisted w eff = [u\<lparr>creditBalance := creditBalance u - 1\<rparr>]
       \<and> reply_creditBalance r = Some (creditBalance u - 1)"
proof -
  from assms obtain d img eff1 where
    ex: "extract_image rt w d (no_effects\<lparr>posts := 1\<rparr>) = (Inr img, eff1)"
    and dl: "deliver rt w u img eff1 = (r, eff)"
    by (auto simp: generateImage_def catch_reply_fails failure_fails
        split: if_splits sum.splits option.splits prod.splits)
  from extract_image_frame[OF ex] have s1: "saves eff1 = []"
    by (simp add: no_effects_def)
  from deliver_success[OF dl \<open>success r\<close>] s1 debit_exact[OF assms(3,4)]
  show ?thesis
    by (auto simp: persisted_def)
qed

theorem success_debits_exactly_one_witness:
  "truthy (prompt demo_request)
   \<and> findById (demo_world (Inr (Bytes png_header)) no_polls) (userId demo_request) = Inr (Some alice)
   \<and> 0 < creditBalance alice \<and> creditBalance alice \<le> 2 ^ 53
   \<and> success (fst (generateImage node (demo_world (Inr (Bytes png_header)) no_polls) demo_request))
   \<and> saves (snd (generateImage node (demo_world (Inr (Bytes png_header)) no_polls) demo_request))
       = [\<lparr>account_id = ''u1'', creditBalance = 4\<rparr>]
   \<and> reply_creditBalance (fst (generateImage node (demo_world (Inr (Bytes png_header)) no_polls) demo_request))
       = Some 4"
proof -
  let ?w = "demo_world (Inr (Bytes png_header)) no_polls"
  note run = run_png
  have h1: "truthy (prompt demo_request)" by (simp add: demo_request_def)
  have h2: "findById ?w (userId demo_request) = Inr (Some alice)"
    by (simp add: demo_world_def demo_request_def)
  have h3: "0 < creditBalance alice" by (simp add: alice_def)
  have h4: "creditBalance alice \<le> 2 ^ 53" by (simp add: alice_def)
  have h5: "success \<lparr>status = 200, success = True, msg = ''Image generated successfully'',
       reply_creditBalance = Some 4,
       resultImage = Some ''data:image/png;base64,iVBORw0KGgo=''\<rparr>" by simp
  from success_debits_exactly_one[OF h1 h2 h3 h4 run h5] h1 h2 h3 h4
  show ?thesis by (simp add: run alice_def)
qed

text \<open>
  C3. A request that is answered with a failure, whatever the failure, has written
  nothing: no document was persisted. The balance is changed in one place only, after the
  image has been extracted; a failing run either never reached \<^verbatim>\<open>user.save()\<close> or is
  the run in which that one save itself was rejected.
\<close>

theorem failure_never_debits:
  assumes "generateImage rt w req = (r, eff)" and "\<not> success r"
  shows "persisted w eff = []
       \<and> (saves eff = [] \<or> (\<exists>u e. saves eff = [u] \<and> save w u = Some e))"
proof -
  consider (early) "saves eff = []"
    | (late) u d img eff1 where "extract_image rt w d (no_effects\<lparr>posts := 1\<rparr>) = (Inr img, eff1)"
        "deliver rt w u img eff1 = (r, eff)"
    using assms(1)
    by (auto simp: generateImage_def no_effects_def
        split: if_splits sum.splits option.splits prod.splits dest: extract_image_frame)
  then show ?thesis
  proof cases
    case early
    then show ?thesis by (simp add: persisted_def)
  next
    case late
    from extract_image_frame[OF late(1)] have s1: "saves eff1 = []"
      by (simp add: no_effects_def)
    from deliver_failure[OF late(2) assms(2)] s1 show ?thesis
      by (auto simp: persisted_def)
  qed
qed

theorem failure_never_debits_witness:
  \<open>\<not> success (fst (generateImage node (demo_world (Inr (Value (Str ''{"error":"model overloaded"}''))) no_polls) demo_request))
   \<and> persisted (demo_world (Inr (Value (Str ''{"error":"model overloaded"}''))) no_polls)
        (snd (generateImage node (demo_world (Inr (Value (Str ''{"error":"model overloaded"}''))) no_polls) demo_request)) = []\<close>
proof -
  let ?w = \<open>demo_world (Inr (Value (Str ''{"error":"model overloaded"}''))) no_polls\<close>
  have run: "generateImage node ?w demo_request =
     (\<lparr>status = 500, success = False, msg = ''model overloaded'',
       reply_creditBalance = None, resultImage = None\<rparr>,
      \<lparr>posts = 1, polls = 0, fetches = [], saves = []\<rparr>)"
    by code_simp
  have h: "\<not> success \<lparr>status = 500, success = False, msg = ''model overloaded'',
       reply_creditBalance = None, resultImage = None\<rparr>" by simp
  from failure_never_debits[OF run h] show ?thesis by (simp add: run)
qed

text \<open>
  C6. When the account that the request resolves to has a balance of 0, the answer is
  403 with the message of the credit gate and the balance 0, whatever the world
  (the upstream included) would have done: no POST, no poll, no fetch, no save.
\<close>

theorem zero_balance_denied:
  assumes "truthy (userId req)" and "truthy (prompt req)"
    and "findById w (userId req) = Inr (Some u)"
    and "creditBalance u = 0"
  shows "generateImage rt w req =
           (\<lparr>status = 403, success = False, msg = ''No Credit Balance'',
             reply_creditBalance = Some 0, resultImage = None\<rparr>, no_effects)"
  using assms by (simp add: generateImage_def failure_def)

theorem zero_balance_denied_witness:
  "status (fst (generateImage node
      ((demo_world (Inr (Bytes png_header)) no_polls)
         \<lparr>findById := (\<lambda>uid. Inr (Some (alice\<lparr>creditBalance := 0\<rparr>)))\<rparr>) demo_request)) = 403
   \<and> snd (generateImage node
      ((demo_world (Inr (Bytes png_header)) no_polls)
         \<lparr>findById := (\<lambda>uid. Inr (Some (alice\<lparr>creditBalance := 0\<rparr>)))\<rparr>) demo_request) = no_effects"
  using zero_balance_denied[of demo_request
      "(demo_world (Inr (Bytes png_header)) no_polls)
         \<lparr>findById := (\<lambda>uid. Inr (Some (alice\<lparr>creditBalance := 0\<rparr>)))\<rparr>"
      "alice\<lparr>creditBalance := 0\<rparr>" node]
  by (simp add: demo_request_def)

text \<open>
  C9. A request that passes validation and the credit gate while neither environment
  variable holds a token is answered with 500 and the configuration message, with no
  POST to the upstream and nothing saved.
\<close>

theorem missing_token_is_configuration_error:
  assumes "truthy (userId req)" and "truthy (prompt req)"
    and "findById w (userId req) = Inr (Some u)"
    and "0 < creditBalance u"
    and "HF_TOKEN_env w = None \<or> HF_TOKEN_env w = Some []"
    and "HUGGING_FACE_TOKEN_env w = None \<or> HUGGING_FACE_TOKEN_env w = Some []"
  shows "generateImage rt w req =
           (failure 500
              ''Hugging Face API token not configured. Please check HF_TOKEN environment variable.'',
            no_effects)"
  using assms by (auto simp: generateImage_def HF_TOKEN_def)

theorem missing_token_is_configuration_error_witness:
  "generateImage node
      ((demo_world (Inr (Bytes png_header)) no_polls)\<lparr>HF_TOKEN_env := Some []\<rparr>) demo_request =
     (failure 500
        ''Hugging Face API token not configured. Please check HF_TOKEN environment variable.'',
      no_effects)"
  using missing_token_is_configuration_error[of demo_request
      "(demo_world (Inr (Bytes png_header)) no_polls)\<lparr>HF_TOKEN_env := Some []\<rparr>" alice node]
  by (simp add: demo_request_def demo_world_def alice_def)

subsection \<open>Base64 round trip\<close>

lemma div_block: "r < n \<Longrightarrow> (q * n + r) div n = (q::nat)"
  by simp
lemma mod_block: "r < n \<Longrightarrow> (q * n + r) mod n = (r::nat)"
  by simp

lemma sextets_eq:
  fixes x y z :: nat
  assumes "x < 256" "y < 256" "z < 256"
  shows "x div 4 * 4 + ((x mod 4) * 16 + y div 16) div 16 = x"
    "(((x mod 4) * 16 + y div 16) mod 16) * 16 + ((y mod 16) * 4 + z div 64) div 4 = y"
    "(((y mod 16) * 4 + z div 64) mod 4) * 64 + z mod 64 = z"
    "x div 4 * 4 + ((x mod 4) * 16) div 16 = x"
    "(((x mod 4) * 16 + y div 16) mod 16) * 16 + ((y mod 16) * 4) div 4 = y"
proof -
  have y16: "y div 16 < 16" using assms(2) by simp
  have z64: "z div 64 < 4" using assms(3) by simp
  have a: "((x mod 4) * 16 + y div 16) div 16 = x mod 4" using y16 by (rule div_block)
  have b: "((x mod 4) * 16 + y div 16) mod 16 = y div 16" using y16 by (rule mod_block)
  have c: "((y mod 16) * 4 + z div 64) div 4 = y mod 16" using z64 by (rule div_block)
  have d: "((y mod 16) * 4 + z div 64) mod 4 = z div 64" using z64 by (rule mod_block)
  show "x div 4 * 4 + ((x mod 4) * 16 + y div 16) div 16 = x" unfolding a by simp
  show "(((x mod 4) * 16 + y div 16) mod 16) * 16 + ((y mod 16) * 4 + z div 64) div 4 = y"
    unfolding b c by simp
  show "(((y mod 16) * 4 + z div 64) mod 4) * 64 + z mod 64 = z" unfolding d by simp
  show "x div 4 * 4 + ((x mod 4) * 16) div 16 = x" by simp
  show "(((x mod 4) * 16 + y div 16) mod 16) * 16 + ((y mod 16) * 4) div 4 = y"
    unfolding b by simp
qed

lemma index_of_nth: "distinct xs \<Longrightarrow> i < length xs \<Longrightarrow> index_of (xs ! i) xs = Some i"
proof (induction xs arbitrary: i)
  case Nil
  then show ?case by simp
next
  case (Cons x xs)
  show ?case
  proof (cases i)
    case 0
    then show ?thesis by simp
  next
    case (Suc j)
    with Cons.prems have "xs ! j \<noteq> x" by auto
    with Suc Cons show ?thesis by auto
  qed
qed

lemma b64chars_distinct: "distinct b64chars"
  by (simp add: b64chars_def)

lemma b64chars_length: "length b64chars = 64"
  by (simp add: b64chars_def)

lemma b64index_b64char: "i < 64 \<Longrightarrow> b64index (b64char i) = Some i"
  by (simp add: b64index_def b64char_def index_of_nth b64chars_distinct b64chars_length)

lemma b64char_in: "b64char i \<in> set b64chars"
  by (simp add: b64char_def b64chars_length)

lemma pad_not_b64: "CHR ''='' \<notin> set b64chars"
  by (simp add: b64chars_def)

lemma colon_not_b64: "CHR '':'' \<notin> set b64chars"
  by (simp add: b64chars_def)

lemma b64char_not_pad: "b64char i \<noteq> CHR ''=''"
  using b64char_in[of i] pad_not_b64 by metis

lemma byte_bound: "unat (a::byte) < 256"
  using unsigned_less[of a] by simp

lemma sextets:
  fixes x y z :: nat
  assumes "x < 256" "y < 256" "z < 256"
  shows "x div 4 < 64" "(x mod 4) * 16 + y div 16 < 64" "(y mod 16) * 4 + z div 64 < 64"
    "z mod 64 < 64" "(x mod 4) * 16 < 64" "(y mod 16) * 4 < 64"
  using assms by arith+

lemma decode_quad:
  assumes "i1 < 64" "i2 < 64" "i3 < 64" "i4 < 64"
  shows "base64_decode (b64char i1 # b64char i2 # b64char i3 # b64char i4 # cs) =
           map_option (\<lambda>bs. of_nat (i1 * 4 + i2 div 16) # of_nat ((i2 mod 16) * 16 + i3 div 4)
                                # of_nat ((i3 mod 4) * 64 + i4) # bs) (base64_decode cs)"
  using assms by (simp add: b64index_b64char b64char_not_pad)

lemma decode_pad1:
  assumes "i1 < 64" "i2 < 64" "i3 < 64"
  shows "base64_decode [b64char i1, b64char i2, b64char i3, CHR ''=''] =
           Some [of_nat (i1 * 4 + i2 div 16), of_nat ((i2 mod 16) * 16 + i3 div 4)]"
  using assms by (simp add: b64index_b64char b64char_not_pad)

lemma decode_pad2:
  assumes "i1 < 64" "i2 < 64"
  shows "base64_decode [b64char i1, b64char i2, CHR ''='', CHR ''=''] =
           Some [of_nat (i1 * 4 + i2 div 16)]"
  using assms by (simp add: b64index_b64char)

lemma base64_round_trip: "base64_decode (base64 bs) = Some bs"
proof (induction bs rule: base64.induct)
  case 1
  then show ?case by simp
next
  case (2 a)
  note s = sextets[OF byte_bound[of a] byte_bound[of a] byte_bound[of a]]
  note e = sextets_eq[OF byte_bound[of a] byte_bound[of a] byte_bound[of a]]
  have "base64_decode (base64 [a]) = Some [of_nat (unat a div 4 * 4 + (unat a mod 4) * 16 div 16)]"
    unfolding base64.simps by (rule decode_pad2[OF s(1) s(5)])
  then show ?case unfolding e(4) by simp
next
  case (3 a b)
  note s = sextets[OF byte_bound[of a] byte_bound[of b] byte_bound[of b]]
  note e = sextets_eq[OF byte_bound[of a] byte_bound[of b] byte_bound[of b]]
  have "base64_decode (base64 [a, b]) =
      Some [of_nat (unat a div 4 * 4 + ((unat a mod 4) * 16 + unat b div 16) div 16),
            of_nat ((((unat a mod 4) * 16 + unat b div 16) mod 16) * 16 + ((unat b mod 16) * 4) div 4)]"
    unfolding base64.simps by (rule decode_pad1[OF s(1) s(2) s(6)])
  then show ?case unfolding e(1) e(5) by simp
next
  case (4 a b c bs)
  note s = sextets[OF byte_bound[of a] byte_bound[of b] byte_bound[of c]]
  note e = sextets_eq[OF byte_bound[of a] byte_bound[of b] byte_bound[of c]]
  have "base64_decode (base64 (a # b # c # bs)) =
      map_option (\<lambda>bs. of_nat (unat a div 4 * 4 + ((unat a mod 4) * 16 + unat b div 16) div 16)
           # of_nat ((((unat a mod 4) * 16 + unat b div 16) mod 16) * 16
                      + ((unat b mod 16) * 4 + unat c div 64) div 4)
           # of_nat ((((unat b mod 16) * 4 + unat c div 64) mod 4) * 64 + unat c mod 64) # bs)
        (base64_decode (base64 bs))"
    unfolding base64.simps append_Cons append_Nil by (rule decode_quad[OF s(1) s(2) s(3) s(4)])
  then show ?case unfolding e(1) e(2) e(3) 4 by simp
qed

lemma base64_alphabet: "set (base64 bs) \<subseteq> insert (CHR ''='') (set b64chars)"
  by (induction bs rule: base64.induct) (auto simp: b64char_in)

lemma base64_empty: "base64 bs = [] \<longleftrightarrow> bs = []"
  by (induction bs rule: base64.induct) auto

lemma strip_data_uri_base64: "strip_data_uri (base64 bs) = base64 bs"
proof -
  have "\<not> startsWith (base64 bs) ''data:image/''"
  proof
    assume "startsWith (base64 bs) ''data:image/''"
    then have "take (length ''data:image/'') (base64 bs) = ''data:image/''"
      by (simp only: startsWith_def)
    then have "CHR '':'' \<in> set (take (length ''data:image/'') (base64 bs))" by simp
    then have "CHR '':'' \<in> set (base64 bs)" by (rule in_set_takeD)
    with base64_alphabet[of bs] colon_not_b64 show False by auto
  qed
  then show ?thesis by (simp add: strip_data_uri_def)
qed


lemma from_buffer_blob:
  assumes "parsed_reply rt (Bytes bs) = None"
  shows "from_buffer rt w bs eff = (Inr (Str (base64 bs)), eff)
       \<or> (\<exists>e. from_buffer rt w bs eff = (Inl e, eff))"
  using assms by (auto simp: from_buffer_def Let_def split: if_splits sum.splits)

lemma deliver_base64:
  assumes "bs \<noteq> []"
    and "save w (u\<lparr>creditBalance := debit (creditBalance u)\<rparr>) = None"
  shows "deliver rt w u (Str (base64 bs)) eff =
     (\<lparr>status = 200, success = True, msg = ''Image generated successfully'',
       reply_creditBalance = Some (debit (creditBalance u)),
       resultImage = Some (''data:image/png;base64,'' @ base64 bs)\<rparr>,
      eff\<lparr>saves := saves eff @ [u\<lparr>creditBalance := debit (creditBalance u)\<rparr>]\<rparr>)"
  using assms by (simp add: deliver_def Let_def strip_data_uri_base64 base64_empty)

lemma from_buffer_blob_delivered:
  assumes "parsed_reply rt (Bytes bs) = None"
    and "\<forall>m. JSON_parse rt (utf8_toString rt bs) = Inl m \<longrightarrow>
           \<not> str_includes m ''processing'' \<and> \<not> str_includes m ''Status:''"
  shows "from_buffer rt w bs eff = (Inr (Str (base64 bs)), eff)"
  using assms by (auto simp: from_buffer_def Let_def new_Error_def split: if_splits sum.splits)

text \<open>
  C7. When the upstream's reply is an opaque binary blob of bytes \<open>bs\<close>, the image of a
  successful answer is the data-URI prefix followed by a payload that decodes to exactly
  \<open>bs\<close>; and an admitted request does succeed when the blob is not empty, the save
  resolves, and the message of a failed parse does not look like a polling error.
\<close>

theorem binary_blob_round_trip:
  assumes "post w (prompt req) = Inr (Bytes bs)"
    and "parsed_reply rt (Bytes bs) = None"
    and "generateImage rt w req = (r, eff)"
  shows "(success r \<longrightarrow>
            (\<exists>p. resultImage r = Some (''data:image/png;base64,'' @ p) \<and> base64_decode p = Some bs))
       \<and> (admitted w req u \<and> bs \<noteq> []
          \<and> save w (u\<lparr>creditBalance := debit (creditBalance u)\<rparr>) = None
          \<and> (\<forall>m. JSON_parse rt (utf8_toString rt bs) = Inl m \<longrightarrow>
                 \<not> str_includes m ''processing'' \<and> \<not> str_includes m ''Status:'')
          \<longrightarrow> success r)"
proof -
  have round: "\<exists>p. resultImage r = Some (''data:image/png;base64,'' @ p) \<and> base64_decode p = Some bs"
    if ok: "success r"
  proof -
    from assms(1,3) ok obtain u' img eff1 where
      ex: "extract_image rt w (Bytes bs) (no_effects\<lparr>posts := 1\<rparr>) = (Inr img, eff1)"
      and dl: "deliver rt w u' img eff1 = (r, eff)"
      by (auto simp: generateImage_def catch_reply_fails failure_fails
          split: if_splits sum.splits option.splits prod.splits)
    from ex from_buffer_blob[OF assms(2), of w "no_effects\<lparr>posts := 1\<rparr>"]
    have img: "img = Str (base64 bs)"
      by (auto simp: extract_image_def response_case_def)
    from deliver_success[OF dl ok] img
    have "resultImage r = Some (''data:image/png;base64,'' @ strip_data_uri (base64 bs))"
      by auto
    then show ?thesis
      by (simp add: strip_data_uri_base64 base64_round_trip)
  qed
  have total: "success r"
    if h: "admitted w req u \<and> bs \<noteq> []
          \<and> save w (u\<lparr>creditBalance := debit (creditBalance u)\<rparr>) = None
          \<and> (\<forall>m. JSON_parse rt (utf8_toString rt bs) = Inl m \<longrightarrow>
                 \<not> str_includes m ''processing'' \<and> \<not> str_includes m ''Status:'')"
  proof -
    from h from_buffer_blob_delivered[OF assms(2), of w "no_effects\<lparr>posts := 1\<rparr>"]
    have "extract_image rt w (Bytes bs) (no_effects\<lparr>posts := 1\<rparr>) =
            (Inr (Str (base64 bs)), no_effects\<lparr>posts := 1\<rparr>)"
      by (simp add: extract_image_def response_case_def)
    with h assms(1,3)
      deliver_base64[where bs = bs and u = u and w = w and rt = rt
        and eff = "no_effects\<lparr>posts := 1\<rparr>"]
    show ?thesis by (auto simp: generateImage_def admitted_def)
  qed
  from round total show ?thesis by blast
qed

theorem binary_blob_round_trip_witness:
  "post (demo_world (Inr (Bytes png_header)) no_polls) (prompt demo_request) = Inr (Bytes png_header)
   \<and> parsed_reply node (Bytes png_header) = None
   \<and> success (fst (generateImage node (demo_world (Inr (Bytes png_header)) no_polls) demo_request))
   \<and> resultImage (fst (generateImage node (demo_world (Inr (Bytes png_header)) no_polls) demo_request))
       = Some ''data:image/png;base64,iVBORw0KGgo=''
   \<and> base64_decode ''iVBORw0KGgo='' = Some png_header"
proof -
  let ?w = "demo_world (Inr (Bytes png_header)) no_polls"
  have h1: "post ?w (prompt demo_request) = Inr (Bytes png_header)"
    by (simp add: demo_world_def)
  have h2: "parsed_reply node (Bytes png_header) = None" by code_simp
  have h3: "success \<lparr>status = 200, success = True, msg = ''Image generated successfully'',
       reply_creditBalance = Some 4,
       resultImage = Some ''data:image/png;base64,iVBORw0KGgo=''\<rparr>" by simp
  from binary_blob_round_trip[OF h1 h2 run_png, of alice] h3
  have "base64_decode ''iVBORw0KGgo='' = Some png_header" by simp
  with h1 h2 show ?thesis by (simp add: run_png)
qed

subsection \<open>Upstream errors\<close>

text \<open>
  C1. An upstream reply that is a JSON object with an \<^verbatim>\<open>error\<close> field ought to make the
  request fail with the upstream's message and leave the balance alone. What the
  controller does when such a reply arrives as a buffer: the \<^verbatim>\<open>throw\<close> of line 247 is
  swallowed by the \<^verbatim>\<open>catch\<close> of line 274 (unless the message contains \<^verbatim>\<open>processing\<close> or
  \<^verbatim>\<open>Status:\<close>), the bytes of the JSON text are returned as the image, and a credit is
  debited.
\<close>

theorem error_reply_in_buffer_is_returned_as_image:
  assumes "admitted w req u"
    and "post w (prompt req) = Inr (Bytes bs)" and "bs \<noteq> []"
    and "parsed_reply rt (Bytes bs) = Some jsonData"
    and "\<not> nullish jsonData"
    and "\<not> (truthy (js_get jsonData ''id'') \<and> truthy (js_get jsonData ''status''))"
    and "js_get jsonData ''error'' = Str e" and "e \<noteq> []"
    and "\<not> str_includes e ''processing''" and "\<not> str_includes e ''Status:''"
    and "save w (u\<lparr>creditBalance := debit (creditBalance u)\<rparr>) = None"
  shows "generateImage rt w req =
     (\<lparr>status = 200, success = True, msg = ''Image generated successfully'',
       reply_creditBalance = Some (debit (creditBalance u)),
       resultImage = Some (''data:image/png;base64,'' @ base64 bs)\<rparr>,
      \<lparr>posts = 1, polls = 0, fetches = [], saves = [u\<lparr>creditBalance := debit (creditBalance u)\<rparr>]\<rparr>)"
proof -
  from assms(4) have p: "JSON_parse rt (utf8_toString rt bs) = Inr jsonData"
    and b: "startsWith (trim (utf8_toString rt bs)) ''{'' \<or> startsWith (trim (utf8_toString rt bs)) ''[''"
    by (auto split: if_splits sum.splits)
  have j: "json_of_buffer rt w bs jsonData (no_effects\<lparr>posts := 1\<rparr>) =
      (Inl (new_Error e), no_effects\<lparr>posts := 1\<rparr>)"
    using assms(5-8) by (auto simp: json_of_buffer_def js_or_def)
  have "from_buffer rt w bs (no_effects\<lparr>posts := 1\<rparr>) =
      (Inr (Str (base64 bs)), no_effects\<lparr>posts := 1\<rparr>)"
    using p b j assms(9,10) by (auto simp: from_buffer_def Let_def new_Error_def)
  then have "extract_image rt w (Bytes bs) (no_effects\<lparr>posts := 1\<rparr>) =
      (Inr (Str (base64 bs)), no_effects\<lparr>posts := 1\<rparr>)"
    by (simp add: extract_image_def response_case_def)
  with assms(1,2) deliver_base64[OF assms(3) assms(11), where rt = rt and eff = "no_effects\<lparr>posts := 1\<rparr>"]
  show ?thesis
    by (auto simp: generateImage_def admitted_def no_effects_def)
qed

theorem error_reply_in_buffer_is_returned_as_image_witness:
  \<open>generateImage node
      (demo_world (Inr (Bytes (utf8_bytes ''{"error":"model overloaded"}''))) no_polls) demo_request =
     (\<lparr>status = 200, success = True, msg = ''Image generated successfully'',
       reply_creditBalance = Some 4,
       resultImage = Some ''data:image/png;base64,eyJlcnJvciI6Im1vZGVsIG92ZXJsb2FkZWQifQ==''\<rparr>,
      \<lparr>posts = 1, polls = 0, fetches = [],
       saves = [\<lparr>account_id = ''u1'', creditBalance = 4\<rparr>]\<rparr>)
   \<and> generateImage node
      (demo_world (Inr (Value (Str ''{"error":"model overloaded"}''))) no_polls) demo_request =
     (\<lparr>status = 500, success = False, msg = ''model overloaded'',
       reply_creditBalance = None, resultImage = None\<rparr>,
      \<lparr>posts = 1, polls = 0, fetches = [], saves = []\<rparr>)\<close>
proof -
  let ?bs = \<open>utf8_bytes ''{"error":"model overloaded"}''\<close>
  let ?w = "demo_world (Inr (Bytes ?bs)) no_polls"
  let ?j = "Obj [(''error'', Str ''model overloaded'')]"
  have h1: "admitted ?w demo_request alice"
    by (simp add: admitted_def demo_world_def demo_request_def alice_def HF_TOKEN_def)
  have h2: "post ?w (prompt demo_request) = Inr (Bytes ?bs)" by (simp add: demo_world_def)
  have h3: "?bs \<noteq> []" by (simp add: utf8_bytes_def)
  have h4: "parsed_reply node (Bytes ?bs) = Some ?j" by code_simp
  have h5: "\<not> nullish ?j" by (simp add: nullish_def)
  have h6: "\<not> (truthy (js_get ?j ''id'') \<and> truthy (js_get ?j ''status''))" by simp
  have h7: "js_get ?j ''error'' = Str ''model overloaded''" by simp
  have h8: "''model overloaded'' \<noteq> []" by simp
  have h9: "\<not> str_includes ''model overloaded'' ''processing''" by code_simp
  have h10: "\<not> str_includes ''model overloaded'' ''Status:''" by code_simp
  have h11: "save ?w (alice\<lparr>creditBalance := debit (creditBalance alice)\<rparr>) = None"
    by (simp add: demo_world_def)
  have d: "debit 5 = 4" by code_simp
  have b: "base64 ?bs = ''eyJlcnJvciI6Im1vZGVsIG92ZXJsb2FkZWQifQ==''" by code_simp
  have s: \<open>generateImage node
      (demo_world (Inr (Value (Str ''{"error":"model overloaded"}''))) no_polls) demo_request =
     (\<lparr>status = 500, success = False, msg = ''model overloaded'',
       reply_creditBalance = None, resultImage = None\<rparr>,
      \<lparr>posts = 1, polls = 0, fetches = [], saves = []\<rparr>)\<close>
    by code_simp
  from error_reply_in_buffer_is_returned_as_image[OF h1 h2 h3 h4 h5 h6 h7 h8 h9 h10 h11] b s
  show ?thesis by (simp add: alice_def d)
qed

subsection \<open>Validation of the prompt\<close>

text \<open>
  C5. A prompt of white space only ought to be refused with 400 before any upstream
  call. What the controller does with an admitted request whose prompt is a string that
  trims to the empty string: the client's guard would not have posted it, and the
  controller makes the POST to the upstream.
\<close>

theorem blank_prompt_is_posted_upstream:
  assumes "admitted w req u" and "prompt req = Str s" and "trim s = []"
  shows "\<not> client_posts_prompt (prompt req) \<and> posts (snd (generateImage rt w req)) = 1"
proof -
  have c: "\<not> client_posts_prompt (prompt req)"
    using assms(2,3) by (simp add: client_posts_prompt_def)
  have "posts (snd (generateImage rt w req)) = 1"
  proof (cases "post w (prompt req)")
    case (Inl e)
    with assms(1) show ?thesis
      by (auto simp: generateImage_def admitted_def no_effects_def)
  next
    case (Inr d)
    obtain res eff1 where ex: "extract_image rt w d (no_effects\<lparr>posts := 1\<rparr>) = (res, eff1)"
      by (cases "extract_image rt w d (no_effects\<lparr>posts := 1\<rparr>)")
    from extract_image_frame[OF ex] have p1: "posts eff1 = 1" by (simp add: no_effects_def)
    show ?thesis
    proof (cases res)
      case (Inl e)
      with assms(1) Inr ex p1 show ?thesis
        by (auto simp: generateImage_def admitted_def)
    next
      case img: (Inr img)
      obtain r eff where dl: "deliver rt w u img eff1 = (r, eff)"
        by (cases "deliver rt w u img eff1")
      then have "posts eff = posts eff1"
        by (auto simp: deliver_def Let_def split: if_splits js.splits option.splits)
      with assms(1) Inr ex img dl p1 show ?thesis
        by (auto simp: generateImage_def admitted_def)
    qed
  qed
  with c show ?thesis by simp
qed

theorem blank_prompt_is_posted_upstream_witness:
  "trim ''   '' = []
   \<and> \<not> client_posts_prompt (Str ''   '')
   \<and> generateImage node (demo_world (Inr (Bytes png_header)) no_polls)
        \<lparr>userId = Str ''u1'', prompt = Str ''   ''\<rparr> =
     (\<lparr>status = 200, success = True, msg = ''Image generated successfully'',
       reply_creditBalance = Some 4,
       resultImage = Some ''data:image/png;base64,iVBORw0KGgo=''\<rparr>,
      \<lparr>posts = 1, polls = 0, fetches = [],
       saves = [\<lparr>account_id = ''u1'', creditBalance = 4\<rparr>]\<rparr>)"
proof -
  let ?w = "demo_world (Inr (Bytes png_header)) no_polls"
  let ?req = "\<lparr>userId = Str ''u1'', prompt = Str ''   ''\<rparr>"
  have h1: "admitted ?w ?req alice"
    by (simp add: admitted_def demo_world_def alice_def HF_TOKEN_def)
  have h2: "prompt ?req = Str ''   ''" by simp
  have h3: "trim ''   '' = []" by code_simp
  have run: "generateImage node ?w ?req =
     (\<lparr>status = 200, success = True, msg = ''Image generated successfully'',
       reply_creditBalance = Some 4,
       resultImage = Some ''data:image/png;base64,iVBORw0KGgo=''\<rparr>,
      \<lparr>posts = 1, polls = 0, fetches = [],
       saves = [\<lparr>account_id = ''u1'', creditBalance = 4\<rparr>]\<rparr>)"
    by code_simp
  from blank_prompt_is_posted_upstream[OF h1 h2 h3, of node] h3 run
  show ?thesis by simp
qed

subsection \<open>The output of a prediction\<close>

lemma truthy_get_not_nullish: "truthy (js_get j k) \<Longrightarrow> \<not> nullish j"
  by (cases j) (auto simp: nullish_def)

text \<open>
  C8, as stated: the reply \<^verbatim>\<open>{"status":"succeeded","output":["data:image/png;base64,QUJD"]}\<close>
  has no \<^verbatim>\<open>id\<close>, so line 105 does not take it for a prediction. As a buffer it is
  returned whole as the image; as a string and as a parsed object the request fails.
\<close>

theorem prediction_without_id_counterexample:
  \<open>resultImage (fst (generateImage node
      (demo_world (Inr (Bytes (utf8_bytes
          ''{"status":"succeeded","output":["data:image/png;base64,QUJD"]}''))) no_polls) demo_request))
     = Some ''data:image/png;base64,eyJzdGF0dXMiOiJzdWNjZWVkZWQiLCJvdXRwdXQiOlsiZGF0YTppbWFnZS9wbmc7YmFzZTY0LFFVSkQiXX0=''
   \<and> fst (generateImage node
      (demo_world (Inr (Value (Str
          ''{"status":"succeeded","output":["data:image/png;base64,QUJD"]}''))) no_polls) demo_request)
     = failure 500 ''No image data found in JSON response''
   \<and> \<not> success (fst (generateImage node
      (demo_world (Inr (Value (Obj [(''status'', Str ''succeeded''),
          (''output'', Arr [Str ''data:image/png;base64,QUJD''])]))) no_polls) demo_request))\<close>
  by code_simp

lemma data_uri_output:
  assumes "truthy (js_get jsonData ''id'')"
    and "js_get jsonData ''status'' = Str ''succeeded''"
    and "js_get jsonData ''output'' = Arr [Str ''data:image/png;base64,QUJD'']"
  shows "json_of_buffer rt w bs jsonData eff = (Inr (Str ''QUJD''), eff)"
    and "resolve_prediction w jsonData eff = (Inr jsonData, eff)"
    and "prediction_image_string rt w jsonData eff = (Inr (Str ''QUJD''), eff)"
proof -
  show r: "resolve_prediction w jsonData eff = (Inr jsonData, eff)"
    using assms(2) by (simp add: resolve_prediction_def)
  have p: "prediction_image_buffer rt w jsonData eff = (Inr (Str ''QUJD''), eff)"
    using assms(2,3)
    by (simp add: prediction_image_buffer_def is_url_def startsWith_def split_comma_1_def)
  show "json_of_buffer rt w bs jsonData eff = (Inr (Str ''QUJD''), eff)"
    using assms(1,2) truthy_get_not_nullish[OF assms(1)] r p
    by (simp add: json_of_buffer_def)
  show "prediction_image_string rt w jsonData eff = (Inr (Str ''QUJD''), eff)"
    using assms(2,3)
    by (simp add: prediction_image_string_def is_url_def startsWith_def split_comma_1_def)
qed

lemma extract_data_uri_output:
  assumes "parsed_reply rt d = Some jsonData"
    and "truthy (js_get jsonData ''id'')"
    and "js_get jsonData ''status'' = Str ''succeeded''"
    and "js_get jsonData ''output'' = Arr [Str ''data:image/png;base64,QUJD'']"
  shows "extract_image rt w d eff = (Inr (Str ''QUJD''), eff)"
proof (cases d)
  case (Bytes bs)
  with assms(1) have "JSON_parse rt (utf8_toString rt bs) = Inr jsonData"
    and "startsWith (trim (utf8_toString rt bs)) ''{'' \<or> startsWith (trim (utf8_toString rt bs)) ''[''"
    by (auto split: if_splits sum.splits)
  with Bytes data_uri_output(1)[OF assms(2-4)] show ?thesis
    by (simp add: extract_image_def response_case_def from_buffer_def Let_def)
next
  case (Value v)
  with assms(1) obtain s where v: "v = Str s" and "JSON_parse rt s = Inr jsonData"
    by (cases v) (auto split: sum.splits)
  with Value data_uri_output(2,3)[OF assms(2-4)] assms(2,3)
    truthy_get_not_nullish[OF assms(2)]
  show ?thesis
    by (simp add: extract_image_def response_case_def from_string_def)
qed

text \<open>
  C8, amended. When the reply, a buffer or a string, parses to a document with a truthy
  \<^verbatim>\<open>id\<close>, the status \<^verbatim>\<open>succeeded\<close> and the output \<^verbatim>\<open>["data:image/png;base64,QUJD"]\<close>, an
  admitted request whose save resolves is answered with success and the image
  \<^verbatim>\<open>data:image/png;base64,QUJD\<close>: the payload is exactly \<^verbatim>\<open>QUJD\<close>.
\<close>

theorem prediction_with_id_yields_payload:
  assumes "admitted w req u"
    and "post w (prompt req) = Inr d"
    and "parsed_reply rt d = Some jsonData"
    and "truthy (js_get jsonData ''id'')"
    and "js_get jsonData ''status'' = Str ''succeeded''"
    and "js_get jsonData ''output'' = Arr [Str ''data:image/png;base64,QUJD'']"
    and "save w (u\<lparr>creditBalance := debit (creditBalance u)\<rparr>) = None"
  shows "generateImage rt w req =
     (\<lparr>status = 200, success = True, msg = ''Image generated successfully'',
       reply_creditBalance = Some (debit (creditBalance u)),
       resultImage = Some ''data:image/png;base64,QUJD''\<rparr>,
      \<lparr>posts = 1, polls = 0, fetches = [], saves = [u\<lparr>creditBalance := debit (creditBalance u)\<rparr>]\<rparr>)"
proof -
  have "deliver rt w u (Str ''QUJD'') (no_effects\<lparr>posts := 1\<rparr>) =
     (\<lparr>status = 200, success = True, msg = ''Image generated successfully'',
       reply_creditBalance = Some (debit (creditBalance u)),
       resultImage = Some ''data:image/png;base64,QUJD''\<rparr>,
      \<lparr>posts = 1, polls = 0, fetches = [], saves = [u\<lparr>creditBalance := debit (creditBalance u)\<rparr>]\<rparr>)"
    using assms(7)
    by (simp add: deliver_def Let_def strip_data_uri_def startsWith_def no_effects_def)
  with assms(1,2) extract_data_uri_output[OF assms(3-6), of w "no_effects\<lparr>posts := 1\<rparr>"]
  show ?thesis
    by (auto simp: generateImage_def admitted_def)
qed

theorem prediction_with_id_yields_payload_witness:
  \<open>admitted (demo_world (Inr (Bytes (utf8_bytes
        ''{"id":"p1","status":"succeeded","output":["data:image/png;base64,QUJD"]}''))) no_polls)
      demo_request alice
   \<and> parsed_reply node (Bytes (utf8_bytes
        ''{"id":"p1","status":"succeeded","output":["data:image/png;base64,QUJD"]}''))
       = Some (Obj [(''output'', Arr [Str ''data:image/png;base64,QUJD'']),
                    (''status'', Str ''succeeded''), (''id'', Str ''p1'')])
   \<and> resultImage (fst (generateImage node (demo_world (Inr (Bytes (utf8_bytes
        ''{"id":"p1","status":"succeeded","output":["data:image/png;base64,QUJD"]}''))) no_polls)
      demo_request)) = Some ''data:image/png;base64,QUJD''\<close>
proof -
  let ?d = \<open>Bytes (utf8_bytes
        ''{"id":"p1","status":"succeeded","output":["data:image/png;base64,QUJD"]}'')\<close>
  let ?j = "Obj [(''output'', Arr [Str ''data:image/png;base64,QUJD'']),
                    (''status'', Str ''succeeded''), (''id'', Str ''p1'')]"
  let ?w = "demo_world (Inr ?d) no_polls"
  have h1: "admitted ?w demo_request alice"
    by (simp add: admitted_def demo_world_def demo_request_def alice_def HF_TOKEN_def)
  have h2: "post ?w (prompt demo_request) = Inr ?d" by (simp add: demo_world_def)
  have h3: "parsed_reply node ?d = Some ?j" by code_simp
  have h4: "truthy (js_get ?j ''id'')" by simp
  have h5: "js_get ?j ''status'' = Str ''succeeded''" by simp
  have h6: "js_get ?j ''output'' = Arr [Str ''data:image/png;base64,QUJD'']" by simp
  have h7: "save ?w (alice\<lparr>creditBalance := debit (creditBalance alice)\<rparr>) = None"
    by (simp add: demo_world_def)
  from prediction_with_id_yields_payload[OF h1 h2 h3 h4 h5 h6 h7] h1 h3
  show ?thesis by simp
qed

subsection \<open>A string reply\<close>

text \<open>
  C10. No reply selects the third case of the chain, since a string is taken by the
  second; a string that is not JSON never yields a success; and it makes an admitted
  request fail with status 500 and the parser's message after the one POST, with no
  poll, fetch or save.
\<close>

theorem string_reply_never_taken_as_base64:
  assumes "post w (prompt req) = Inr (Value (Str s))"
    and "JSON_parse rt s = Inl m"
  shows "(\<forall>d. response_case d \<noteq> 3)
       \<and> response_case (Value (Str s)) = 2
       \<and> \<not> success (fst (generateImage rt w req))
       \<and> (admitted w req u \<longrightarrow>
            generateImage rt w req =
              (failure 500 (if m \<noteq> [] then m else ''Image generation failed''),
               no_effects\<lparr>posts := 1\<rparr>))"
proof -
  have a: "\<forall>d. response_case d \<noteq> 3" by (simp add: response_case_def)
  have b: "response_case (Value (Str s)) = 2" by (simp add: response_case_def)
  have ex: "extract_image rt w (Value (Str s)) (no_effects\<lparr>posts := 1\<rparr>) =
          (Inl (new_Error m), no_effects\<lparr>posts := 1\<rparr>)"
    using assms(2) by (simp add: extract_image_def b from_string_def)
  have c: "catch_reply rt (new_Error m) =
      failure 500 (if m \<noteq> [] then m else ''Image generation failed'')"
    by (simp add: catch_reply_def new_Error_def)
  have f: "\<not> success (fst (generateImage rt w req))"
    using assms(1) ex
    by (auto simp: generateImage_def catch_reply_fails failure_fails
        split: sum.splits option.splits)
  have g: "generateImage rt w req =
           (failure 500 (if m \<noteq> [] then m else ''Image generation failed''),
            no_effects\<lparr>posts := 1\<rparr>)" if "admitted w req u"
    using that assms(1) ex c by (auto simp: generateImage_def admitted_def)
  from a b f g show ?thesis by blast
qed

theorem string_reply_never_taken_as_base64_witness:
  "100 < js_length long_text
   \<and> JSON_parse node long_text = Inl ''Unexpected token in JSON''
   \<and> generateImage node (demo_world (Inr (Value (Str long_text))) no_polls) demo_request =
       (failure 500 ''Unexpected token in JSON'', no_effects\<lparr>posts := 1\<rparr>)"
proof -
  let ?w = "demo_world (Inr (Value (Str long_text))) no_polls"
  have h1: "admitted ?w demo_request alice"
    by (simp add: admitted_def demo_world_def demo_request_def alice_def HF_TOKEN_def)
  have h2: "post ?w (prompt demo_request) = Inr (Value (Str long_text))"
    by (simp add: demo_world_def)
  have h3: "JSON_parse node long_text = Inl ''Unexpected token in JSON''" by code_simp
  have h4: "100 < js_length long_text" by code_simp
  from string_reply_never_taken_as_base64[OF h2 h3, of alice] h1 h3 h4
  show ?thesis by simp
qed

subsection \<open>Polling\<close>


lemma transient_not_terminal: "transient d \<Longrightarrow> \<not> terminal d"
  by (auto simp: transient_def terminal_def)

lemma poll_loop_bound:
  "attempts \<le> maxAttempts \<Longrightarrow> fst (poll_loop g attempts fp) \<le> maxAttempts"
proof (induction g attempts fp rule: poll_loop.induct)
  case (1 g attempts fp)
  show ?case
  proof (cases "attempts < maxAttempts \<and> transient fp")
    case True
    then have le: "attempts + 1 \<le> maxAttempts" by simp
    show ?thesis
    proof (cases "g (attempts + 1)")
      case (Inl e)
      with True "1.IH"(1)[OF True Inl le] show ?thesis
        by (subst poll_loop.simps) simp
    next
      case (Inr d)
      show ?thesis
      proof (cases "terminal d")
        case t: True
        with True Inr le show ?thesis by (subst poll_loop.simps) simp
      next
        case f: False
        with True Inr "1.IH"(2)[OF True Inr f le] show ?thesis
          by (subst poll_loop.simps) simp
      qed
    qed
  next
    case False
    with "1.prems" show ?thesis by (subst poll_loop.simps) auto
  qed
qed

lemma poll_loop_stuck:
  assumes "transient fp" and "attempts \<le> maxAttempts"
    and "\<forall>k. attempts < k \<and> k \<le> maxAttempts \<longrightarrow> stays_transient (g k)"
  shows "\<exists>fp'. poll_loop g attempts fp = (maxAttempts, fp') \<and> transient fp'"
  using assms
proof (induction g attempts fp rule: poll_loop.induct)
  case (1 g attempts fp)
  show ?case
  proof (cases "attempts < maxAttempts")
    case False
    with "1.prems" have "attempts = maxAttempts" by simp
    with "1.prems"(1) show ?thesis by (subst poll_loop.simps) simp
  next
    case True
    with "1.prems"(1) have c: "attempts < maxAttempts \<and> transient fp" by simp
    have le: "attempts + 1 \<le> maxAttempts" using True by simp
    have later: "\<forall>k. attempts + 1 < k \<and> k \<le> maxAttempts \<longrightarrow> stays_transient (g k)"
      using "1.prems"(3) by simp
    have now: "stays_transient (g (attempts + 1))" using "1.prems"(3) le by simp
    show ?thesis
    proof (cases "g (attempts + 1)")
      case (Inl e)
      from "1.IH"(1)[OF c Inl "1.prems"(1) le later] c Inl show ?thesis
        by (subst poll_loop.simps) simp
    next
      case (Inr d)
      with now have td: "transient d" by (simp add: stays_transient_def)
      then have nt: "\<not> terminal d" by (rule transient_not_terminal)
      from "1.IH"(2)[OF c Inr nt td le later] c Inr nt show ?thesis
        by (subst poll_loop.simps) simp
    qed
  qed
qed

lemma poll_loop_stops:
  assumes "transient fp" and "attempts < k" and "k \<le> maxAttempts"
    and "\<forall>j. attempts < j \<and> j < k \<longrightarrow> stays_transient (g j)"
    and "reaches_terminal (g k)"
  shows "fst (poll_loop g attempts fp) = k"
  using assms
proof (induction g attempts fp rule: poll_loop.induct)
  case (1 g attempts fp)
  from "1.prems" have c: "attempts < maxAttempts \<and> transient fp" by simp
  show ?case
  proof (cases "attempts + 1 = k")
    case True
    with "1.prems"(5) obtain d where "g (attempts + 1) = Inr d" "terminal d"
      by (auto simp: reaches_terminal_def split: sum.splits)
    with c True show ?thesis by (subst poll_loop.simps) simp
  next
    case False
    with "1.prems"(2) have lt: "attempts + 1 < k" by simp
    then have now: "stays_transient (g (attempts + 1))" using "1.prems"(4) by simp
    have later: "\<forall>j. attempts + 1 < j \<and> j < k \<longrightarrow> stays_transient (g j)"
      using "1.prems"(4) by simp
    show ?thesis
    proof (cases "g (attempts + 1)")
      case (Inl e)
      from "1.IH"(1)[OF c Inl "1.prems"(1) lt "1.prems"(3) later "1.prems"(5)] c Inl
      show ?thesis by (subst poll_loop.simps) simp
    next
      case (Inr d)
      with now have td: "transient d" by (simp add: stays_transient_def)
      then have nt: "\<not> terminal d" by (rule transient_not_terminal)
      from "1.IH"(2)[OF c Inr nt td lt "1.prems"(3) later "1.prems"(5)] c Inr nt
      show ?thesis by (subst poll_loop.simps) simp
    qed
  qed
qed

lemma startsWith_append: "startsWith s p \<Longrightarrow> startsWith (s @ t) p"
proof -
  assume "startsWith s p"
  then have "take (length p) s = p" by (simp only: startsWith_def)
  then have "s = p @ drop (length p) s" by (metis append_take_drop_id)
  then have "s @ t = p @ (drop (length p) s @ t)" by (metis append.assoc)
  then have "take (length p) (s @ t) = p" by (metis append_eq_conv_conj)
  then show ?thesis by (simp only: startsWith_def)
qed

lemma str_includes_append: "str_includes s p \<Longrightarrow> str_includes (s @ t) p"
proof (induction s)
  case Nil
  then show ?case by (cases t) (auto simp: startsWith_def)
next
  case (Cons c cs)
  from Cons.prems have "startsWith (c # cs) p \<or> str_includes cs p" by simp
  then show ?case
  proof
    assume "startsWith (c # cs) p"
    then have "startsWith ((c # cs) @ t) p" by (rule startsWith_append)
    then show ?thesis by simp
  next
    assume "str_includes cs p"
    then have "str_includes (cs @ t) p" by (rule Cons.IH)
    then show ?thesis by simp
  qed
qed

lemma timeout_message_rethrown:
  "str_includes (''Image generation is still processing after polling. Status: '' @ st) ''processing''"
proof -
  have "str_includes ''Image generation is still processing after polling. Status: '' ''processing''"
    by code_simp
  then show ?thesis by (rule str_includes_append)
qed

lemma deliver_polls: "deliver rt w u img eff = (r, eff') \<Longrightarrow> polls eff' = polls eff"
  by (auto simp: deliver_def Let_def split: if_splits js.splits option.splits)

lemma resolve_transient:
  assumes "transient j"
  shows "resolve_prediction w j eff =
     (let (attempts, finalPrediction) = poll_loop (poll w) 0 j;
          eff' = eff\<lparr>polls := polls eff + attempts\<rparr>
      in if nullish finalPrediction then (Inl (cannot_read finalPrediction ''status''), eff')
         else (Inr (set_prop (set_prop (set_prop j
                      ''status'' (js_get finalPrediction ''status''))
                      ''output'' (js_get finalPrediction ''output''))
                      ''error'' (js_get finalPrediction ''error'')), eff'))"
  using assms by (auto simp: resolve_prediction_def transient_def)

lemma resolve_polls:
  assumes "transient j" and "resolve_prediction w j eff = (res, eff')"
  shows "polls eff' = polls eff + fst (poll_loop (poll w) 0 j)"
  using assms(2) unfolding resolve_transient[OF assms(1)]
  by (auto simp: Let_def split: prod.splits if_splits)

lemma handle_polls:
  assumes "parsed_reply rt d = Some j" and "truthy (js_get j ''id'')" and "transient j"
    and "extract_image rt w d eff = (res, eff')"
  shows "polls eff' = polls eff + fst (poll_loop (poll w) 0 j)"
proof -
  have st: "truthy (js_get j ''status'')" using assms(3) by (auto simp: transient_def)
  have nn: "\<not> nullish j" using assms(3) by (simp add: transient_def)
  show ?thesis
  proof (cases d)
    case (Bytes bs)
    with assms(1) have p: "JSON_parse rt (utf8_toString rt bs) = Inr j"
      and b: "startsWith (trim (utf8_toString rt bs)) ''{'' \<or> startsWith (trim (utf8_toString rt bs)) ''[''"
      by (auto split: if_splits sum.splits)
    obtain res1 eff1 where j1: "json_of_buffer rt w bs j eff = (res1, eff1)"
      by (cases "json_of_buffer rt w bs j eff")
    obtain res2 eff2 where r2: "resolve_prediction w j eff = (res2, eff2)"
      by (cases "resolve_prediction w j eff")
    from j1 r2 assms(2) st nn have "polls eff1 = polls eff2"
      by (auto simp: json_of_buffer_def split: sum.splits prod.splits
          dest: prediction_image_buffer_frame)
    moreover from assms(4) Bytes p b j1 have "eff' = eff1"
      by (auto simp: extract_image_def response_case_def from_buffer_def Let_def
          split: sum.splits if_splits)
    ultimately show ?thesis using resolve_polls[OF assms(3) r2] by simp
  next
    case (Value v)
    with assms(1) obtain s where v: "v = Str s" and p: "JSON_parse rt s = Inr j"
      by (cases v) (auto split: sum.splits)
    obtain res2 eff2 where r2: "resolve_prediction w j eff = (res2, eff2)"
      by (cases "resolve_prediction w j eff")
    from assms(4) Value v p r2 assms(2) st nn have "polls eff' = polls eff2"
      by (auto simp: extract_image_def response_case_def from_string_def
          split: sum.splits prod.splits dest: prediction_image_string_frame)
    then show ?thesis using resolve_polls[OF assms(3) r2] by simp
  qed
qed

lemma resolved_status:
  assumes "truthy (js_get j ''id'')"
  shows "js_get (set_prop (set_prop (set_prop j ''status'' a) ''output'' b) ''error'' c) ''status'' = a"
  using assms by (cases j) auto

lemma handle_timeout:
  assumes "parsed_reply rt d = Some j" and "truthy (js_get j ''id'')" and "transient j"
    and "poll_loop (poll w) 0 j = (n, fp)" and "transient fp"
    and "extract_image rt w d eff = (res, eff')"
  shows "res = Inl (new_Error ''Image generation is still processing after polling. Status: starting'')
       \<or> res = Inl (new_Error ''Image generation is still processing after polling. Status: processing'')"
proof -
  have st: "truthy (js_get j ''status'')" using assms(3) by (auto simp: transient_def)
  have nn: "\<not> nullish j" using assms(3) by (simp add: transient_def)
  define j' where "j' = set_prop (set_prop (set_prop j
                      ''status'' (js_get fp ''status''))
                      ''output'' (js_get fp ''output''))
                      ''error'' (js_get fp ''error'')"
  have r: "resolve_prediction w j eff = (Inr j', eff\<lparr>polls := polls eff + n\<rparr>)"
    unfolding resolve_transient[OF assms(3)] using assms(4,5)
    by (simp add: j'_def transient_def)
  have s': "js_get j' ''status'' = js_get fp ''status''"
    unfolding j'_def by (rule resolved_status[OF assms(2)])
  from assms(5) have tr: "js_get fp ''status'' = Str ''starting'' \<or> js_get fp ''status'' = Str ''processing''"
    by (simp add: transient_def)
  let ?m = "''Image generation is still processing after polling. Status: '' @ ToString (Number_toString rt) (js_get fp ''status'')"
  have pe: "prediction_error rt j' = new_Error ?m"
    using tr by (auto simp: prediction_error_def Let_def s')
  have pb: "prediction_image_buffer rt w j' (eff\<lparr>polls := polls eff + n\<rparr>)
              = (Inl (new_Error ?m), eff\<lparr>polls := polls eff + n\<rparr>)"
    using tr by (auto simp: prediction_image_buffer_def Let_def s' pe)
  have ps: "prediction_image_string rt w j' (eff\<lparr>polls := polls eff + n\<rparr>)
              = (Inl (new_Error ?m), eff\<lparr>polls := polls eff + n\<rparr>)"
    using tr by (auto simp: prediction_image_string_def Let_def s' pe)
  have inc: "str_includes (message (new_Error ?m)) ''processing''"
    by (simp only: new_Error_def exn.simps timeout_message_rethrown)
  have res: "res = Inl (new_Error ?m)"
  proof (cases d)
    case (Bytes bs)
    with assms(1) have p: "JSON_parse rt (utf8_toString rt bs) = Inr j"
      and b: "startsWith (trim (utf8_toString rt bs)) ''{'' \<or> startsWith (trim (utf8_toString rt bs)) ''[''"
      by (auto split: if_splits sum.splits)
    have "json_of_buffer rt w bs j eff = (Inl (new_Error ?m), eff\<lparr>polls := polls eff + n\<rparr>)"
      using assms(2) st nn r pb by (simp add: json_of_buffer_def)
    with assms(6) Bytes p b inc show ?thesis
      by (auto simp: extract_image_def response_case_def from_buffer_def Let_def)
  next
    case (Value v)
    with assms(1) obtain s where v: "v = Str s" and p: "JSON_parse rt s = Inr j"
      by (cases v) (auto split: sum.splits)
    with assms(6) Value assms(2) st nn r ps show ?thesis
      by (auto simp: extract_image_def response_case_def from_string_def)
  qed
  from tr res show ?thesis by auto
qed

text \<open>
  C4. For an admitted request whose POST is answered with a prediction handle
  (a truthy \<^verbatim>\<open>id\<close>, status \<^verbatim>\<open>starting\<close> or \<^verbatim>\<open>processing\<close>): at most 30 polls are issued;
  when each of the 30 polls leaves the handle transient (a rejected GET counts as
  such an attempt), exactly 30 polls are issued and the request fails with status 500
  and the still-processing message, nothing saved; and when poll \<open>k\<close> is the first
  to answer \<^verbatim>\<open>succeeded\<close> or \<^verbatim>\<open>failed\<close>, exactly \<open>k\<close> polls are issued.
\<close>

theorem polling_is_bounded:
  assumes "admitted w req u"
    and "post w (prompt req) = Inr d"
    and "parsed_reply rt d = Some handle"
    and "truthy (js_get handle ''id'')"
    and "transient handle"
    and "generateImage rt w req = (r, eff)"
  shows "polls eff \<le> 30
     \<and> ((\<forall>k. 1 \<le> k \<and> k \<le> 30 \<longrightarrow> stays_transient (poll w k)) \<longrightarrow>
          polls eff = 30 \<and> status r = 500 \<and> \<not> success r \<and> saves eff = []
          \<and> (msg r = ''Image generation is still processing after polling. Status: starting''
             \<or> msg r = ''Image generation is still processing after polling. Status: processing''))
     \<and> (\<forall>k. 1 \<le> k \<and> k \<le> 30 \<and> (\<forall>j. 1 \<le> j \<and> j < k \<longrightarrow> stays_transient (poll w j))
              \<and> reaches_terminal (poll w k) \<longrightarrow> polls eff = k)"
proof -
  obtain res eff1 where ex: "extract_image rt w d (no_effects\<lparr>posts := 1\<rparr>) = (res, eff1)"
    by (cases "extract_image rt w d (no_effects\<lparr>posts := 1\<rparr>)")
  from assms(1,2,6) ex have fin:
    "(\<exists>e. res = Inl e \<and> r = catch_reply rt e \<and> eff = eff1)
     \<or> (\<exists>img. res = Inr img \<and> deliver rt w u img eff1 = (r, eff))"
    by (cases res) (auto simp: generateImage_def admitted_def)
  then have pe: "polls eff = polls eff1" by (auto dest: deliver_polls)
  from handle_polls[OF assms(3,4,5) ex]
  have p1: "polls eff1 = fst (poll_loop (poll w) 0 handle)" by (simp add: no_effects_def)
  have bound: "polls eff \<le> 30"
    using poll_loop_bound[of 0 "poll w" handle] pe p1 by (simp add: maxAttempts_def)
  have stuck: "polls eff = 30 \<and> status r = 500 \<and> \<not> success r \<and> saves eff = []
          \<and> (msg r = ''Image generation is still processing after polling. Status: starting''
             \<or> msg r = ''Image generation is still processing after polling. Status: processing'')"
    if all: "\<forall>k. 1 \<le> k \<and> k \<le> 30 \<longrightarrow> stays_transient (poll w k)"
  proof -
    from all have "\<forall>k. 0 < k \<and> k \<le> maxAttempts \<longrightarrow> stays_transient (poll w k)"
      by (simp add: maxAttempts_def)
    from poll_loop_stuck[OF assms(5) _ this] obtain fp where
      pl: "poll_loop (poll w) 0 handle = (maxAttempts, fp)" and tf: "transient fp" by auto
    from handle_timeout[OF assms(3,4,5) pl tf ex] fin
    have "(res = Inl (new_Error ''Image generation is still processing after polling. Status: starting'')
           \<or> res = Inl (new_Error ''Image generation is still processing after polling. Status: processing''))
          \<and> r = catch_reply rt (projl res) \<and> eff = eff1"
      by auto
    moreover from extract_image_frame[OF ex] have "saves eff1 = []" by (simp add: no_effects_def)
    ultimately show ?thesis using pe p1 pl
      by (auto simp: catch_reply_def new_Error_def failure_def maxAttempts_def)
  qed
  have stop: "polls eff = k"
    if k: "1 \<le> k \<and> k \<le> 30 \<and> (\<forall>j. 1 \<le> j \<and> j < k \<longrightarrow> stays_transient (poll w j))
              \<and> reaches_terminal (poll w k)" for k
  proof -
    from k have "0 < k" "k \<le> maxAttempts" "\<forall>j. 0 < j \<and> j < k \<longrightarrow> stays_transient (poll w j)"
      "reaches_terminal (poll w k)" by (auto simp: maxAttempts_def)
    from poll_loop_stops[OF assms(5) this] pe p1 show ?thesis by simp
  qed
  from bound stuck stop show ?thesis by blast
qed


theorem polling_is_bounded_witness:
  "polls (snd (generateImage node (demo_world (Inr handle_reply) always_processing) demo_request)) = 30
   \<and> fst (generateImage node (demo_world (Inr handle_reply) always_processing) demo_request)
       = failure 500 ''Image generation is still processing after polling. Status: processing''
   \<and> stays_transient (succeeds_on_third 1) \<and> stays_transient (succeeds_on_third 2)
   \<and> reaches_terminal (succeeds_on_third 3)
   \<and> polls (snd (generateImage node (demo_world (Inr handle_reply) succeeds_on_third) demo_request)) = 3"
proof -
  let ?j = "Obj [(''status'', Str ''starting''), (''id'', Str ''p1'')]"
  let ?w1 = "demo_world (Inr handle_reply) always_processing"
  let ?w2 = "demo_world (Inr handle_reply) succeeds_on_third"
  have a1: "admitted ?w1 demo_request alice"
    by (simp add: admitted_def demo_world_def demo_request_def alice_def HF_TOKEN_def)
  have a2: "admitted ?w2 demo_request alice"
    by (simp add: admitted_def demo_world_def demo_request_def alice_def HF_TOKEN_def)
  have p1: "post ?w1 (prompt demo_request) = Inr handle_reply" by (simp add: demo_world_def)
  have p2: "post ?w2 (prompt demo_request) = Inr handle_reply" by (simp add: demo_world_def)
  have h3: "parsed_reply node handle_reply = Some ?j" by code_simp
  have h4: "truthy (js_get ?j ''id'')" by simp
  have h5: "transient ?j" by (simp add: transient_def nullish_def)
  obtain r1 e1 where run1: "generateImage node ?w1 demo_request = (r1, e1)"
    by (cases "generateImage node ?w1 demo_request")
  obtain r2 e2 where run2: "generateImage node ?w2 demo_request = (r2, e2)"
    by (cases "generateImage node ?w2 demo_request")
  have all: "\<forall>k. 1 \<le> k \<and> k \<le> 30 \<longrightarrow> stays_transient (poll ?w1 k)"
    by (simp add: demo_world_def always_processing_def stays_transient_def transient_def nullish_def)
  have s1: "stays_transient (succeeds_on_third 1)" "stays_transient (succeeds_on_third 2)"
    by (simp_all add: succeeds_on_third_def stays_transient_def)
  have s3: "reaches_terminal (succeeds_on_third 3)"
    by (simp add: succeeds_on_third_def reaches_terminal_def terminal_def nullish_def)
  have before: "\<forall>j. 1 \<le> j \<and> j < 3 \<longrightarrow> stays_transient (poll ?w2 j)"
    by (simp add: demo_world_def succeeds_on_third_def stays_transient_def)
  have at3: "reaches_terminal (poll ?w2 3)" using s3 by (simp add: demo_world_def)
  from polling_is_bounded[OF a1 p1 h3 h4 h5 run1] all
  have stuck: "polls e1 = 30 \<and> status r1 = 500 \<and> \<not> success r1
      \<and> (msg r1 = ''Image generation is still processing after polling. Status: starting''
         \<or> msg r1 = ''Image generation is still processing after polling. Status: processing'')"
    by blast
  from polling_is_bounded[OF a2 p2 h3 h4 h5 run2] before at3
  have stop: "polls e2 = 3" by auto
  have v1: "generateImage node ?w1 demo_request =
      (failure 500 ''Image generation is still processing after polling. Status: processing'',
       \<lparr>posts = 1, polls = 30, fetches = [], saves = []\<rparr>)"
    by code_simp
  from stuck stop run1 run2 v1 s1 s3 show ?thesis by simp
qed

end
